theory Spec2Isabelle
  imports Main
begin

section \<open>Python values used by the extender\<close>

text \<open>
  The extender is Python. Strings are \<open>string\<close>, \<open>Optional[str]\<close> is
  \<open>string option\<close>, and the truth value Python gives such an optional string in
  \<open>if password:\<close> or \<open>if not self.virtual_interface:\<close> is \<open>truthy\<close>:
  \<open>None\<close> and the empty string are both false.
\<close>

definition truthy :: "string option \<Rightarrow> bool" where
  "truthy v = (case v of None \<Rightarrow> False | Some s \<Rightarrow> s \<noteq> [])"

text \<open>The exceptions the modelled code can see.\<close>

datatype exn =
    CalledProcessError "string list" int
  | OSError
  | KeyError string
  | IndexError
  | ValueError

text \<open>
  Every method of the collaborators returns \<open>Tuple[bool, str]\<close>. The text is built
  by f-strings from literals and from \<open>str(e)\<close> of a caught exception; the latter is
  kept symbolic.
\<close>

datatype part = Lit string | StrOf exn

type_synonym message = "part list"

type_synonym result = "bool \<times> message"

section \<open>The operating system as seen by the code\<close>

text \<open>
  Each external effect of the code is appended to a trace, the world. The answer of
  the operating system to the effect at position \<open>n\<close> of the trace is read from an
  environment, so that the same command may succeed at one time and fail at another.
  \<open>Invoke\<close> marks a call the daemon makes on one of its collaborators; it has no
  answer and is only recorded.
\<close>

datatype call =
    StartServices
  | UpstreamConnect | UpstreamDisconnect
  | ApConfigure | ApConfigureDhcp | ApStart | ApStop
  | BridgeStart | BridgeStop
  | VifCreate | VifDelete

datatype effect =
    Run "string list"
  | Sleep nat
  | WriteFile string string
  | ExistsFile string
  | ReadFile string
  | RemoveFile string
  | Probe string
  | Invoke call

type_synonym world = "effect list"

text \<open>A finished process has a return code and its standard output; \<open>NoExec\<close> is
  \<open>subprocess.run\<close> raising \<open>OSError\<close> (the program is not installed).\<close>

datatype answer = Exit int string | NoExec

text \<open>Reading a text file line by line: \<open>open\<close> raises, or the loop over the file
  gets these lines and then ends, at the end of the file (\<open>False\<close>) or by an
  exception while reading or decoding (\<open>True\<close>).\<close>

datatype file_read = Cannot_open | Lines "string list" bool

text \<open>What \<open>WiFiDetector.get_interface_status\<close> hands to the connection manager:
  the empty dictionary for an interface it does not know, the five-key status, or an
  exception that the detector lets through.\<close>

record iface_status =
  st_active :: bool
  st_connected :: bool
  st_ssid :: "string option"
  st_ip_address :: "string option"
  st_mode :: "string option"

datatype detected = Unknown_iface | Status iface_status | Probe_raises exn

record env =
  proc :: "nat \<Rightarrow> string list \<Rightarrow> answer"
  write_ok :: "nat \<Rightarrow> string \<Rightarrow> bool"
  file_exists :: "nat \<Rightarrow> string \<Rightarrow> bool"
  file_lines :: "nat \<Rightarrow> string \<Rightarrow> file_read"
  remove_ok :: "nat \<Rightarrow> string \<Rightarrow> bool"
  detector :: "nat \<Rightarrow> string \<Rightarrow> detected"
  signalled :: "nat \<Rightarrow> bool"

definition calls :: "world \<Rightarrow> call list" where
  "calls w = concat (map (\<lambda>e. case e of Invoke c \<Rightarrow> [c] | _ \<Rightarrow> []) w)"

text \<open>\<open>subprocess.run(cmd, check=chk)\<close>: with \<open>check=True\<close> a non-zero return code
  raises \<open>CalledProcessError\<close>; without it the return code is only reported.\<close>

definition run_cmd :: "env \<Rightarrow> bool \<Rightarrow> string list \<Rightarrow> world \<Rightarrow> (exn + int \<times> string) \<times> world" where
  "run_cmd e chk c w =
     (case proc e (length w) c of
        NoExec \<Rightarrow> (Inl OSError, w @ [Run c])
      | Exit rc out \<Rightarrow>
          if chk \<and> rc \<noteq> 0 then (Inl (CalledProcessError c rc), w @ [Run c])
          else (Inr (rc, out), w @ [Run c]))"

text \<open>A straight-line block of \<open>subprocess.run(..., check=True)\<close> statements: the
  first one that raises ends the block.\<close>

fun run_all :: "env \<Rightarrow> string list list \<Rightarrow> world \<Rightarrow> exn option \<times> world" where
  "run_all e [] w = (None, w)"
| "run_all e (c # cs) w =
     (case run_cmd e True c w of
        (Inl x, w') \<Rightarrow> (Some x, w')
      | (Inr _, w') \<Rightarrow> run_all e cs w')"

definition sleep :: "nat \<Rightarrow> world \<Rightarrow> world" where
  "sleep n w = w @ [Sleep n]"

text \<open>\<open>with open(path, 'w') as f: f.write(text)\<close>; \<open>False\<close> is an exception.\<close>

definition write_file :: "env \<Rightarrow> string \<Rightarrow> string \<Rightarrow> world \<Rightarrow> bool \<times> world" where
  "write_file e p txt w = (write_ok e (length w) p, w @ [WriteFile p txt])"

definition path_exists :: "env \<Rightarrow> string \<Rightarrow> world \<Rightarrow> bool \<times> world" where
  "path_exists e p w = (file_exists e (length w) p, w @ [ExistsFile p])"

definition remove_file :: "env \<Rightarrow> string \<Rightarrow> world \<Rightarrow> bool \<times> world" where
  "remove_file e p w = (remove_ok e (length w) p, w @ [RemoveFile p])"

definition read_lines :: "env \<Rightarrow> string \<Rightarrow> world \<Rightarrow> file_read \<times> world" where
  "read_lines e p w = (file_lines e (length w) p, w @ [ReadFile p])"

section \<open>Python string operations\<close>

text \<open>A \<open>char\<close> stands for a code point below 256. Whitespace as \<open>str.split()\<close> and
  \<open>str.strip()\<close> see it among these code points: the ASCII blanks and separators,
  NEL (\<open>0x85\<close>) and the no-break space (\<open>0xA0\<close>).\<close>

definition py_isspace :: "char \<Rightarrow> bool" where
  "py_isspace c = (c \<in> set [CHR 0x09, CHR 0x0A, CHR 0x0B, CHR 0x0C, CHR 0x0D,
                               CHR 0x1C, CHR 0x1D, CHR 0x1E, CHR 0x1F, CHR 0x20,
                               CHR 0x85, CHR 0xA0])"

definition py_strip :: "string \<Rightarrow> string" where
  "py_strip s = rev (dropWhile py_isspace (rev (dropWhile py_isspace s)))"

text \<open>\<open>s.split()\<close>: the maximal runs of non-whitespace characters.\<close>

fun split_ws :: "string \<Rightarrow> string \<Rightarrow> string list" where
  "split_ws acc [] = (if acc = [] then [] else [rev acc])"
| "split_ws acc (c # cs) =
     (if py_isspace c then (if acc = [] then split_ws [] cs else rev acc # split_ws [] cs)
      else split_ws (c # acc) cs)"

definition py_split :: "string \<Rightarrow> string list" where
  "py_split s = split_ws [] s"

fun starts_with :: "string \<Rightarrow> string \<Rightarrow> bool" where
  "starts_with [] s = True"
| "starts_with (p # ps) [] = False"
| "starts_with (p # ps) (c # cs) = (p = c \<and> starts_with ps cs)"

text \<open>\<open>sub in s\<close> for strings.\<close>

fun py_in :: "string \<Rightarrow> string \<Rightarrow> bool" where
  "py_in sub [] = (sub = [])"
| "py_in sub (c # cs) = (starts_with sub (c # cs) \<or> py_in sub cs)"

text \<open>\<open>s.split(sep)\<close> for a non-empty separator (the code only uses literals).\<close>

fun split_sep :: "string \<Rightarrow> string \<Rightarrow> string \<Rightarrow> string list" where
  "split_sep sep acc [] = [rev acc]"
| "split_sep sep acc (c # cs) =
     (if sep \<noteq> [] \<and> starts_with sep (c # cs)
      then rev acc # split_sep sep [] (drop (length sep - 1) cs)
      else split_sep sep (c # acc) cs)"

definition py_split_on :: "string \<Rightarrow> string \<Rightarrow> string list" where
  "py_split_on sep s = split_sep sep [] s"

text \<open>\<open>s.splitlines()\<close>, with the line boundaries among the code points below 256.\<close>

definition is_linebreak :: "char \<Rightarrow> bool" where
  "is_linebreak c = (c \<in> set [CHR 0x0A, CHR 0x0B, CHR 0x0C, CHR 0x0D, CHR 0x1C, CHR 0x1D, CHR 0x1E,
                                 CHR 0x85])"

fun split_lines :: "string \<Rightarrow> string \<Rightarrow> string list" where
  "split_lines acc [] = (if acc = [] then [] else [rev acc])"
| "split_lines acc [c] = (if is_linebreak c then [rev acc] else [rev (c # acc)])"
| "split_lines acc (c # d # cs) =
     (if c = CHR 0x0D \<and> d = CHR 0x0A then rev acc # split_lines [] cs
      else if is_linebreak c then rev acc # split_lines [] (d # cs)
      else split_lines (c # acc) (d # cs))"

definition py_splitlines :: "string \<Rightarrow> string list" where
  "py_splitlines s = split_lines [] s"

text \<open>\<open>'\n'.join(lines)\<close>.\<close>

fun join_nl :: "string list \<Rightarrow> string" where
  "join_nl [] = []"
| "join_nl [x] = x"
| "join_nl (x # y # ys) = x @ [CHR 0x0A] @ join_nl (y # ys)"

text \<open>\<open>str(n)\<close> of an integer, as an f-string renders it.\<close>

function str_nat :: "nat \<Rightarrow> string" where
  "str_nat n = (if n < 10 then [char_of (48 + n)] else str_nat (n div 10) @ [char_of (48 + n mod 10)])"
  by pat_completeness auto
termination
  by (relation "measure id") auto

declare str_nat.simps [simp del]

definition str_int :: "int \<Rightarrow> string" where
  "str_int i = (if i < 0 then ''-'' @ str_nat (nat (- i)) else str_nat (nat i))"

definition is_cpe :: "exn \<Rightarrow> bool" where
  "is_cpe x = (case x of CalledProcessError c rc \<Rightarrow> True | _ \<Rightarrow> False)"

definition succeeded :: "exn + result \<Rightarrow> bool" where
  "succeeded r = (case r of Inl x \<Rightarrow> False | Inr (ok, m) \<Rightarrow> ok)"

section \<open>InterfaceManager\<close>

record interface_manager =
  physical_interface :: string
  virtual_interface :: "string option"

definition new_interface_manager :: "string \<Rightarrow> interface_manager" where
  "new_interface_manager name = \<lparr>physical_interface = name, virtual_interface = None\<rparr>"

text \<open>Both methods catch \<open>CalledProcessError\<close> only; any other exception leaves the
  method (\<open>Inl\<close>). After \<open>check=True\<close> the test \<open>returncode == 0\<close> always holds; the
  model keeps it.\<close>

definition create_virtual_interface ::
  "env \<Rightarrow> string \<Rightarrow> interface_manager \<Rightarrow> world \<Rightarrow> (exn + result) \<times> interface_manager \<times> world" where
  "create_virtual_interface e name_suffix im w =
     (if truthy (virtual_interface im) then
        (Inr (False, [Lit ''Virtual interface '', Lit (the (virtual_interface im)), Lit '' already exists'']), im, w)
      else
        let virtual_name = physical_interface im @ ''_'' @ name_suffix in
        case run_cmd e True
               [''iw'', ''dev'', physical_interface im, ''interface'', ''add'', virtual_name, ''type'', ''__ap''] w of
          (Inr (rc, out), w') \<Rightarrow>
            if rc = 0 then
              (Inr (True, [Lit ''Successfully created virtual interface '', Lit virtual_name]),
               im\<lparr>virtual_interface := Some virtual_name\<rparr>, w')
            else (Inr (False, [Lit ''Failed to create virtual interface: '']), im, w')
        | (Inl x, w') \<Rightarrow>
            if is_cpe x then (Inr (False, [StrOf x]), im, w') else (Inl x, im, w'))"

definition delete_virtual_interface ::
  "env \<Rightarrow> interface_manager \<Rightarrow> world \<Rightarrow> (exn + result) \<times> interface_manager \<times> world" where
  "delete_virtual_interface e im w =
     (if \<not> truthy (virtual_interface im) then
        (Inr (False, [Lit ''No virtual interface exists'']), im, w)
      else
        case run_cmd e True [''iw'', ''dev'', the (virtual_interface im), ''del''] w of
          (Inr (rc, out), w') \<Rightarrow>
            if rc = 0 then
              (Inr (True, [Lit ''Successfully deleted virtual interface'']),
               im\<lparr>virtual_interface := None\<rparr>, w')
            else (Inr (False, [Lit ''Failed to delete virtual interface: '']), im, w')
        | (Inl x, w') \<Rightarrow>
            if is_cpe x then (Inr (False, [StrOf x]), im, w') else (Inl x, im, w'))"

section \<open>APService\<close>

record ap_service =
  ap_interface :: string
  hostapd_conf_path :: string
  dnsmasq_conf_path :: string
  ap_is_running :: bool

definition new_ap_service :: "string \<Rightarrow> ap_service" where
  "new_ap_service iface =
     \<lparr>ap_interface = iface, hostapd_conf_path = ''/tmp/hostapd.conf'',
      dnsmasq_conf_path = ''/tmp/dnsmasq.conf'', ap_is_running = False\<rparr>"

definition wpa2_stanza :: "string \<Rightarrow> string list" where
  "wpa2_stanza password =
     [''wpa=2'', ''wpa_key_mgmt=WPA-PSK'', ''rsn_pairwise=CCMP'', ''wpa_passphrase='' @ password]"

definition hostapd_config_lines ::
  "string \<Rightarrow> string \<Rightarrow> string option \<Rightarrow> int \<Rightarrow> string \<Rightarrow> string list" where
  "hostapd_config_lines iface ssid password channel hw_mode =
     [''interface='' @ iface,
      ''driver=nl80211'',
      ''ssid='' @ ssid,
      ''hw_mode='' @ hw_mode,
      ''channel='' @ str_int channel,
      ''ctrl_interface=/var/run/hostapd'',
      ''ctrl_interface_group=0'',
      ''ignore_broadcast_ssid=0'']
     @ (if truthy password then wpa2_stanza (the password) else [])"

text \<open>\<open>configure_ap\<close> and \<open>configure_dhcp\<close> write a file and change no field of the
  object; every exception is caught.\<close>

definition configure_ap ::
  "env \<Rightarrow> ap_service \<Rightarrow> string \<Rightarrow> string option \<Rightarrow> int \<Rightarrow> string \<Rightarrow> world \<Rightarrow> result \<times> world" where
  "configure_ap e ap ssid password channel hw_mode w =
     (case write_file e (hostapd_conf_path ap)
             (join_nl (hostapd_config_lines (ap_interface ap) ssid password channel hw_mode)) w of
        (True, w') \<Rightarrow> ((True, [Lit ''AP configuration created successfully'']), w')
      | (False, w') \<Rightarrow> ((False, [StrOf OSError]), w'))"

definition dnsmasq_config_lines :: "string \<Rightarrow> string \<Rightarrow> string \<Rightarrow> string \<Rightarrow> string list" where
  "dnsmasq_config_lines iface ip_range_start ip_range_end lease_time =
     [''interface='' @ iface,
      ''bind-interfaces'',
      ''server=8.8.8.8'',
      ''domain-needed'',
      ''bogus-priv'',
      ''dhcp-range='' @ ip_range_start @ '','' @ ip_range_end @ '','' @ lease_time]"

definition configure_dhcp ::
  "env \<Rightarrow> ap_service \<Rightarrow> string \<Rightarrow> string \<Rightarrow> string \<Rightarrow> world \<Rightarrow> result \<times> world" where
  "configure_dhcp e ap ip_range_start ip_range_end lease_time w =
     (case write_file e (dnsmasq_conf_path ap)
             (join_nl (dnsmasq_config_lines (ap_interface ap) ip_range_start ip_range_end lease_time)) w of
        (True, w') \<Rightarrow> ((True, [Lit ''DHCP configuration created successfully'']), w')
      | (False, w') \<Rightarrow> ((False, [StrOf OSError]), w'))"

text \<open>\<open>if os.path.exists(p): os.remove(p)\<close>; \<open>False\<close> is \<open>os.remove\<close> raising.\<close>

definition remove_if_exists :: "env \<Rightarrow> string \<Rightarrow> world \<Rightarrow> bool \<times> world" where
  "remove_if_exists e p w =
     (case path_exists e p w of
        (True, w') \<Rightarrow> remove_file e p w'
      | (False, w') \<Rightarrow> (True, w'))"

text \<open>\<open>stop\<close> catches every exception, so it always returns.\<close>

definition ap_stop :: "env \<Rightarrow> ap_service \<Rightarrow> world \<Rightarrow> result \<times> ap_service \<times> world" where
  "ap_stop e ap w =
     (case run_cmd e False [''killall'', ''hostapd''] w of
        (Inl x, w1) \<Rightarrow> ((False, [StrOf x]), ap, w1)
      | (Inr _, w1) \<Rightarrow>
     (case run_cmd e False [''killall'', ''dnsmasq''] w1 of
        (Inl x, w2) \<Rightarrow> ((False, [StrOf x]), ap, w2)
      | (Inr _, w2) \<Rightarrow>
     (case run_cmd e True [''ip'', ''addr'', ''flush'', ''dev'', ap_interface ap] w2 of
        (Inl x, w3) \<Rightarrow> ((False, [StrOf x]), ap, w3)
      | (Inr _, w3) \<Rightarrow>
     (case remove_if_exists e (hostapd_conf_path ap) w3 of
        (False, w4) \<Rightarrow> ((False, [StrOf OSError]), ap, w4)
      | (True, w4) \<Rightarrow>
     (case remove_if_exists e (dnsmasq_conf_path ap) w4 of
        (False, w5) \<Rightarrow> ((False, [StrOf OSError]), ap, w5)
      | (True, w5) \<Rightarrow>
          ((True, [Lit ''Access point stopped successfully'']), ap\<lparr>ap_is_running := False\<rparr>, w5))))))"

definition ap_start_commands :: "ap_service \<Rightarrow> string list list" where
  "ap_start_commands ap =
     [[''ip'', ''addr'', ''flush'', ''dev'', ap_interface ap],
      [''ip'', ''addr'', ''add'', ''192.168.4.1/24'', ''dev'', ap_interface ap],
      [''ip'', ''link'', ''set'', ap_interface ap, ''up''],
      [''hostapd'', ''-B'', hostapd_conf_path ap],
      [''dnsmasq'', ''-C'', dnsmasq_conf_path ap]]"

text \<open>\<open>start\<close> catches \<open>CalledProcessError\<close> only, and then calls \<open>self.stop()\<close>.\<close>

definition ap_start :: "env \<Rightarrow> ap_service \<Rightarrow> world \<Rightarrow> (exn + result) \<times> ap_service \<times> world" where
  "ap_start e ap w =
     (case run_all e (ap_start_commands ap) w of
        (None, w') \<Rightarrow>
          (Inr (True, [Lit ''Access point started successfully'']), ap\<lparr>ap_is_running := True\<rparr>, w')
      | (Some x, w') \<Rightarrow>
          if is_cpe x then
            (case ap_stop e ap w' of (r, ap', w'') \<Rightarrow> (Inr (False, [StrOf x]), ap', w''))
          else (Inl x, ap, w'))"

subsection \<open>The client list\<close>

record client =
  mac_address :: string
  ip_address :: string
  hostname :: string
  signal_strength :: "string option"

text \<open>The first loop: one client for every lease line with at least five fields.\<close>

definition lease_client :: "string \<Rightarrow> client list" where
  "lease_client line =
     (let parts = py_split (py_strip line) in
      if length parts \<ge> 5 then
        [\<lparr>mac_address = parts ! 1, ip_address = parts ! 2, hostname = parts ! 3,
          signal_strength = None\<rparr>]
      else [])"

definition lease_clients :: "string list \<Rightarrow> client list" where
  "lease_clients lines = concat (map lease_client lines)"

text \<open>The innermost loop: the first client with this hardware address gets the signal,
  then \<open>break\<close>.\<close>

fun set_signal :: "string \<Rightarrow> string \<Rightarrow> client list \<Rightarrow> client list" where
  "set_signal mac sig [] = []"
| "set_signal mac sig (c # cs) =
     (if mac_address c = mac then c\<lparr>signal_strength := Some sig\<rparr> # cs
      else c # set_signal mac sig cs)"

text \<open>The loop over the lines of \<open>iw dev ... station dump\<close>. The dictionaries are
  updated in place, so an \<open>IndexError\<close> in the middle leaves the updates made so far.\<close>

fun station_loop :: "string option \<Rightarrow> string list \<Rightarrow> client list \<Rightarrow> client list" where
  "station_loop current_mac [] clients = clients"
| "station_loop current_mac (line # ls) clients =
     (if py_in ''Station'' line then
        (case py_split line of
           a # m # rest \<Rightarrow> station_loop (Some m) ls clients
         | _ \<Rightarrow> clients)
      else if py_in ''signal:'' line \<and> truthy current_mac then
        (case py_split_on '':'' line of
           a # s # rest \<Rightarrow> station_loop current_mac ls (set_signal (the current_mac) (py_strip s) clients)
         | _ \<Rightarrow> clients)
      else station_loop current_mac ls clients)"

definition leases_path :: string where
  "leases_path = ''/var/lib/misc/dnsmasq.leases''"

text \<open>The first block of \<open>get_connected_clients\<close>. The second component says whether an
  exception ended the block; the clients appended before it stay in the list.\<close>

definition read_leases :: "env \<Rightarrow> world \<Rightarrow> (client list \<times> bool) \<times> world" where
  "read_leases e w =
     (case path_exists e leases_path w of
        (False, w1) \<Rightarrow> (([], False), w1)
      | (True, w1) \<Rightarrow>
          (case read_lines e leases_path w1 of
             (Cannot_open, w2) \<Rightarrow> (([], True), w2)
           | (Lines ls raised, w2) \<Rightarrow> ((lease_clients ls, raised), w2)))"

text \<open>Every exception is caught and the list built so far is returned.\<close>

definition station_dump :: "ap_service \<Rightarrow> string list" where
  "station_dump aps = [''iw'', ''dev'', ap_interface aps, ''station'', ''dump'']"

definition get_connected_clients :: "env \<Rightarrow> ap_service \<Rightarrow> world \<Rightarrow> client list \<times> world" where
  "get_connected_clients e aps w =
     (case read_leases e w of
        ((clients, True), w1) \<Rightarrow> (clients, w1)
      | ((clients, False), w1) \<Rightarrow>
          (case run_cmd e False (station_dump aps) w1 of
             (Inl x, w2) \<Rightarrow> (clients, w2)
           | (Inr (rc, out), w2) \<Rightarrow>
               if rc = 0 then (station_loop None (py_splitlines out) clients, w2)
               else (clients, w2)))"



section \<open>ConnectionManager\<close>

text \<open>The status dictionary of \<open>get_connection_status\<close>: the detector's five keys and
  the two keys added for a connected interface.\<close>

record conn_status = iface_status +
  signal_quality :: "string option"
  bit_rate :: "string option"

record connection_manager =
  cm_interface :: string
  current_connection :: "conn_status option"

definition new_connection_manager :: "string \<Rightarrow> connection_manager" where
  "new_connection_manager iface = \<lparr>cm_interface = iface, current_connection = None\<rparr>"

text \<open>\<open>out.split(key)[1].split()[0]\<close> under the guard \<open>key in out\<close>.\<close>

definition field_after :: "string \<Rightarrow> string \<Rightarrow> exn + string option" where
  "field_after key out =
     (if py_in key out then
        (case py_split_on key out of
           a # t # rest \<Rightarrow> (case py_split t of q # qs \<Rightarrow> Inr (Some q) | [] \<Rightarrow> Inl IndexError)
         | _ \<Rightarrow> Inl IndexError)
      else Inr None)"

definition with_link :: "iface_status \<Rightarrow> string option \<Rightarrow> string option \<Rightarrow> conn_status" where
  "with_link st q r =
     \<lparr>st_active = st_active st, st_connected = st_connected st, st_ssid = st_ssid st,
      st_ip_address = st_ip_address st, st_mode = st_mode st,
      signal_quality = q, bit_rate = r\<rparr>"

text \<open>\<open>status["connected"]\<close> on the empty dictionary is a \<open>KeyError\<close>; only
  \<open>CalledProcessError\<close> of \<open>iwconfig\<close> is caught.\<close>

definition get_connection_status ::
  "env \<Rightarrow> connection_manager \<Rightarrow> world \<Rightarrow> (exn + conn_status) \<times> world" where
  "get_connection_status e cm w =
     (let w1 = w @ [Probe (cm_interface cm)] in
      case detector e (length w) (cm_interface cm) of
        Probe_raises x \<Rightarrow> (Inl x, w1)
      | Unknown_iface \<Rightarrow> (Inl (KeyError ''connected''), w1)
      | Status st \<Rightarrow>
          if st_connected st then
            (case run_cmd e True [''iwconfig'', cm_interface cm] w1 of
               (Inl x, w2) \<Rightarrow> if is_cpe x then (Inr (with_link st None None), w2) else (Inl x, w2)
             | (Inr (rc, out), w2) \<Rightarrow>
                 (case field_after ''Link Quality='' out of
                    Inl x \<Rightarrow> (Inl x, w2)
                  | Inr q \<Rightarrow>
                      (case field_after ''Bit Rate='' out of
                         Inl x \<Rightarrow> (Inl x, w2)
                       | Inr r \<Rightarrow> (Inr (with_link st q r), w2))))
          else (Inr (with_link st None None), w1))"

definition dquote :: string where
  "dquote = [CHR 0x22]"

definition wpa_config_lines :: "string \<Rightarrow> string option \<Rightarrow> string list" where
  "wpa_config_lines ssid password =
     [''ctrl_interface=/run/wpa_supplicant'',
      ''update_config=1'',
      ''network={'',
      ''    ssid='' @ dquote @ ssid @ dquote]
     @ (if truthy password then
          [''    key_mgmt=WPA-PSK'', ''    psk='' @ dquote @ the password @ dquote]
        else [''    key_mgmt=NONE''])
     @ [''}'']"

definition wpa_conf_path :: string where
  "wpa_conf_path = ''/tmp/wpa_supplicant.conf''"

text \<open>The verification at the end of \<open>connect_to_network\<close>.\<close>

definition verified :: "conn_status \<Rightarrow> string \<Rightarrow> bool" where
  "verified st ssid = (st_connected st \<and> st_ssid st = Some ssid)"

text \<open>The first part of the \<open>try\<close> block of \<open>connect_to_network\<close>: the
  configuration is written, \<open>wpa_supplicant\<close> is restarted and an address is
  requested, with the two fixed waits. \<open>Some x\<close> is the exception that ended it.\<close>

definition request_connection ::
  "env \<Rightarrow> connection_manager \<Rightarrow> string \<Rightarrow> string option \<Rightarrow> world \<Rightarrow> exn option \<times> world" where
  "request_connection e cm ssid password w =
     (case write_file e wpa_conf_path (join_nl (wpa_config_lines ssid password)) w of
        (False, w1) \<Rightarrow> (Some OSError, w1)
      | (True, w1) \<Rightarrow>
     (case run_cmd e False [''killall'', ''wpa_supplicant''] w1 of
        (Inl x, w2) \<Rightarrow> (Some x, w2)
      | (Inr _, w2) \<Rightarrow>
     (case run_cmd e True
             [''wpa_supplicant'', ''-B'', ''-i'', cm_interface cm, ''-c'', wpa_conf_path] (sleep 1 w2) of
        (Inl x, w3) \<Rightarrow> (Some x, w3)
      | (Inr _, w3) \<Rightarrow>
     (case run_cmd e True [''dhclient'', ''-v'', cm_interface cm] (sleep 2 w3) of
        (Inl x, w4) \<Rightarrow> (Some x, w4)
      | (Inr _, w4) \<Rightarrow> (None, w4)))))"

text \<open>\<open>connect_to_network\<close> catches every exception, so it always returns a result.
  After the request the status is probed once and compared with the requested SSID.\<close>

definition connect_to_network ::
  "env \<Rightarrow> connection_manager \<Rightarrow> string \<Rightarrow> string option \<Rightarrow> world \<Rightarrow>
     result \<times> connection_manager \<times> world" where
  "connect_to_network e cm ssid password w =
     (case request_connection e cm ssid password w of
        (Some x, w4) \<Rightarrow> ((False, [StrOf x]), cm, w4)
      | (None, w4) \<Rightarrow>
          (case get_connection_status e cm w4 of
             (Inl x, w5) \<Rightarrow> ((False, [StrOf x]), cm, w5)
           | (Inr st, w5) \<Rightarrow>
               if verified st ssid then
                 ((True, [Lit ''Successfully connected to '', Lit ssid]),
                  cm\<lparr>current_connection := Some st\<rparr>, w5)
               else ((False, [Lit ''Failed to connect to '', Lit ssid]), cm, w5)))"

text \<open>\<open>disconnect\<close> catches \<open>CalledProcessError\<close> only.\<close>

definition disconnect ::
  "env \<Rightarrow> connection_manager \<Rightarrow> world \<Rightarrow> (exn + result) \<times> connection_manager \<times> world" where
  "disconnect e cm w =
     (case run_cmd e True [''killall'', ''wpa_supplicant''] w of
        (Inl x, w1) \<Rightarrow> if is_cpe x then (Inr (False, [StrOf x]), cm, w1) else (Inl x, cm, w1)
      | (Inr _, w1) \<Rightarrow>
     (case run_cmd e True [''dhclient'', ''-r'', cm_interface cm] (sleep 1 w1) of
        (Inl x, w2) \<Rightarrow> if is_cpe x then (Inr (False, [StrOf x]), cm, w2) else (Inl x, cm, w2)
      | (Inr _, w2) \<Rightarrow>
          (Inr (True, [Lit ''Successfully disconnected'']), cm\<lparr>current_connection := None\<rparr>, w2)))"

section \<open>BridgeService\<close>

record bridge_service =
  upstream_interface :: string
  br_ap_interface :: string
  bridge_name :: string
  br_is_running :: bool
  iptables_rules :: "string list list"

definition new_bridge_service :: "string \<Rightarrow> string \<Rightarrow> bridge_service" where
  "new_bridge_service up ap =
     \<lparr>upstream_interface = up, br_ap_interface = ap, bridge_name = ''br0'',
      br_is_running = False, iptables_rules = []\<rparr>"

definition ip_forward_path :: string where
  "ip_forward_path = ''/proc/sys/net/ipv4/ip_forward''"

definition setup_bridge :: "env \<Rightarrow> bridge_service \<Rightarrow> world \<Rightarrow> (exn + result) \<times> world" where
  "setup_bridge e br w =
     (case run_all e
             [[''ip'', ''link'', ''add'', ''name'', bridge_name br, ''type'', ''bridge''],
              [''ip'', ''link'', ''set'', br_ap_interface br, ''master'', bridge_name br],
              [''ip'', ''link'', ''set'', bridge_name br, ''up'']] w of
        (None, w') \<Rightarrow> (Inr (True, [Lit ''Bridge interface created successfully'']), w')
      | (Some x, w') \<Rightarrow> if is_cpe x then (Inr (False, [StrOf x]), w') else (Inl x, w'))"

definition routing_rules :: "bridge_service \<Rightarrow> string list list" where
  "routing_rules br =
     [[''iptables'', ''-t'', ''nat'', ''-A'', ''POSTROUTING'', ''-o'', upstream_interface br,
       ''-j'', ''MASQUERADE''],
      [''iptables'', ''-A'', ''FORWARD'', ''-i'', br_ap_interface br, ''-o'', upstream_interface br,
       ''-j'', ''ACCEPT''],
      [''iptables'', ''-A'', ''FORWARD'', ''-i'', upstream_interface br, ''-o'', br_ap_interface br,
       ''-m'', ''state'', ''--state'', ''RELATED,ESTABLISHED'', ''-j'', ''ACCEPT'']]"

text \<open>\<open>for rule in rules: subprocess.run(rule, check=True); self._iptables_rules.append(rule)\<close>\<close>

fun install_rules ::
  "env \<Rightarrow> string list list \<Rightarrow> bridge_service \<Rightarrow> world \<Rightarrow> exn option \<times> bridge_service \<times> world" where
  "install_rules e [] br w = (None, br, w)"
| "install_rules e (rule # rules) br w =
     (case run_cmd e True rule w of
        (Inl x, w') \<Rightarrow> (Some x, br, w')
      | (Inr _, w') \<Rightarrow> install_rules e rules (br\<lparr>iptables_rules := iptables_rules br @ [rule]\<rparr>) w')"

definition setup_routing :: "env \<Rightarrow> bridge_service \<Rightarrow> world \<Rightarrow> result \<times> bridge_service \<times> world" where
  "setup_routing e br w =
     (case write_file e ip_forward_path ''1'' w of
        (False, w1) \<Rightarrow> ((False, [StrOf OSError]), br, w1)
      | (True, w1) \<Rightarrow>
          (case install_rules e (routing_rules br) br w1 of
             (Some x, br', w2) \<Rightarrow> ((False, [StrOf x]), br', w2)
           | (None, br', w2) \<Rightarrow> ((True, [Lit ''Routing rules configured successfully'']), br', w2)))"

text \<open>Neither command of \<open>cleanup_bridge\<close> is checked, so the \<open>CalledProcessError\<close>
  handler is never entered; a missing \<open>ip\<close> program leaves the method.\<close>

definition cleanup_bridge :: "env \<Rightarrow> bridge_service \<Rightarrow> world \<Rightarrow> exn option \<times> world" where
  "cleanup_bridge e br w =
     (case run_cmd e False [''ip'', ''link'', ''set'', br_ap_interface br, ''nomaster''] w of
        (Inl x, w1) \<Rightarrow> (Some x, w1)
      | (Inr _, w1) \<Rightarrow>
          (case run_cmd e False [''ip'', ''link'', ''delete'', bridge_name br, ''type'', ''bridge''] w1 of
             (Inl x, w2) \<Rightarrow> (Some x, w2)
           | (Inr _, w2) \<Rightarrow> (None, w2)))"

text \<open>\<open>delete_rule = rule.copy(); delete_rule[3] = "-D"\<close>: position 3 is overwritten,
  whatever it holds; a rule of fewer than four words raises \<open>IndexError\<close>.\<close>

definition delete_rule :: "string list \<Rightarrow> exn + string list" where
  "delete_rule rule = (if 3 < length rule then Inr (rule[3 := ''-D'']) else Inl IndexError)"

text \<open>The loop over \<open>reversed(self._iptables_rules)\<close>; the argument is the reversed
  list. The commands are not checked.\<close>

fun remove_rules :: "env \<Rightarrow> string list list \<Rightarrow> world \<Rightarrow> exn option \<times> world" where
  "remove_rules e [] w = (None, w)"
| "remove_rules e (rule # rules) w =
     (case delete_rule rule of
        Inl x \<Rightarrow> (Some x, w)
      | Inr d \<Rightarrow>
          (case run_cmd e False d w of
             (Inl x, w') \<Rightarrow> (Some x, w')
           | (Inr _, w') \<Rightarrow> remove_rules e rules w'))"

text \<open>\<open>stop\<close> catches every exception.\<close>

definition bridge_stop :: "env \<Rightarrow> bridge_service \<Rightarrow> world \<Rightarrow> result \<times> bridge_service \<times> world" where
  "bridge_stop e br w =
     (case remove_rules e (rev (iptables_rules br)) w of
        (Some x, w1) \<Rightarrow> ((False, [StrOf x]), br, w1)
      | (None, w1) \<Rightarrow>
     (let br1 = br\<lparr>iptables_rules := []\<rparr> in
      case write_file e ip_forward_path ''0'' w1 of
        (False, w2) \<Rightarrow> ((False, [StrOf OSError]), br1, w2)
      | (True, w2) \<Rightarrow>
     (case cleanup_bridge e br1 w2 of
        (Some x, w3) \<Rightarrow> ((False, [StrOf x]), br1, w3)
      | (None, w3) \<Rightarrow>
          ((True, [Lit ''Bridge and routing stopped successfully'']), br1\<lparr>br_is_running := False\<rparr>, w3))))"

text \<open>\<open>start\<close> catches every exception and then calls \<open>self.stop()\<close>.\<close>

definition bridge_start :: "env \<Rightarrow> bridge_service \<Rightarrow> world \<Rightarrow> result \<times> bridge_service \<times> world" where
  "bridge_start e br w =
     (case setup_bridge e br w of
        (Inl x, w1) \<Rightarrow>
          (case bridge_stop e br w1 of (r, br', w') \<Rightarrow> ((False, [StrOf x]), br', w'))
      | (Inr (False, m), w1) \<Rightarrow> ((False, Lit ''Bridge setup failed: '' # m), br, w1)
      | (Inr (True, m), w1) \<Rightarrow>
          (case setup_routing e br w1 of
             ((False, m), br1, w2) \<Rightarrow>
               (case cleanup_bridge e br1 w2 of
                  (None, w3) \<Rightarrow> ((False, Lit ''Routing setup failed: '' # m), br1, w3)
                | (Some x, w3) \<Rightarrow>
                    (case bridge_stop e br1 w3 of (r, br', w') \<Rightarrow> ((False, [StrOf x]), br', w')))
           | ((True, m), br1, w2) \<Rightarrow>
               ((True, [Lit ''Bridge and routing started successfully'']),
                br1\<lparr>br_is_running := True\<rparr>, w2)))"

section \<open>The daemon\<close>

text \<open>The configuration file, with the keys the daemon reads. A missing section is
  \<open>None\<close>; \<open>.get("password")\<close> and \<open>.get("channel", 6)\<close> read optional keys.\<close>

record upstream_config =
  up_ssid :: string
  up_password :: "string option"

record ap_config =
  cfg_ssid :: string
  cfg_password :: "string option"
  cfg_channel :: "int option"

record config =
  upstream :: "upstream_config option"
  ap :: "ap_config option"

text \<open>The fields of \<open>WiFiExtenderDaemon\<close>. The detector is represented by the list
  \<open>get_suitable_interfaces()\<close> returns. The only lifecycle state is the flag
  \<open>running\<close>.\<close>

record daemon =
  suitable_interfaces :: "string list"
  interface :: "string option"
  connection_manager :: "connection_manager option"
  interface_manager :: "interface_manager option"
  ap_service :: "ap_service option"
  bridge_service :: "bridge_service option"
  running :: bool
  config :: config

definition new_daemon :: "string list \<Rightarrow> daemon" where
  "new_daemon ifaces =
     \<lparr>suitable_interfaces = ifaces, interface = None, connection_manager = None,
      interface_manager = None, ap_service = None, bridge_service = None,
      running = False, config = \<lparr>upstream = None, ap = None\<rparr>\<rparr>"

definition invoke :: "call \<Rightarrow> world \<Rightarrow> world" where
  "invoke c w = w @ [Invoke c]"

definition initialize_services :: "env \<Rightarrow> daemon \<Rightarrow> world \<Rightarrow> bool \<times> daemon \<times> world" where
  "initialize_services e d w =
     (case suitable_interfaces d of
        [] \<Rightarrow> (False, d, w)
      | iface # others \<Rightarrow>
          (let d1 = d\<lparr>interface := Some iface,
                       connection_manager := Some (new_connection_manager iface)\<rparr> in
           case create_virtual_interface e ''ap0'' (new_interface_manager iface) (invoke VifCreate w) of
             (Inl x, im, w') \<Rightarrow> (False, d1\<lparr>interface_manager := Some im\<rparr>, w')
           | (Inr (False, m), im, w') \<Rightarrow> (False, d1\<lparr>interface_manager := Some im\<rparr>, w')
           | (Inr (True, m), im, w') \<Rightarrow>
               (True,
                d1\<lparr>interface_manager := Some im,
                    ap_service := Some (new_ap_service (iface @ ''_ap0'')),
                    bridge_service := Some (new_bridge_service iface (iface @ ''_ap0''))\<rparr>, w')))"

text \<open>The three commented blocks of \<open>start_services\<close>. Each returns \<open>False\<close> where the
  method executes \<open>return False\<close> or an exception reaches the method's handler.\<close>

definition start_upstream ::
  "env \<Rightarrow> connection_manager \<Rightarrow> daemon \<Rightarrow> world \<Rightarrow> bool \<times> daemon \<times> world" where
  "start_upstream e cm d w =
     (case upstream (config d) of
        None \<Rightarrow> (True, d, w)
      | Some u \<Rightarrow>
          (case connect_to_network e cm (up_ssid u) (up_password u) (invoke UpstreamConnect w) of
             ((ok, m), cm', w') \<Rightarrow> (ok, d\<lparr>connection_manager := Some cm'\<rparr>, w')))"

definition start_ap :: "env \<Rightarrow> ap_service \<Rightarrow> daemon \<Rightarrow> world \<Rightarrow> bool \<times> daemon \<times> world" where
  "start_ap e aps d w =
     (case ap (config d) of
        None \<Rightarrow> (True, d, w)
      | Some a \<Rightarrow>
          (case configure_ap e aps (cfg_ssid a) (cfg_password a)
                  (case cfg_channel a of None \<Rightarrow> 6 | Some ch \<Rightarrow> ch) ''g'' (invoke ApConfigure w) of
             ((False, m), w1) \<Rightarrow> (False, d, w1)
           | ((True, m), w1) \<Rightarrow>
          (case configure_dhcp e aps ''192.168.4.2'' ''192.168.4.20'' ''12h'' (invoke ApConfigureDhcp w1) of
             ((False, m), w2) \<Rightarrow> (False, d, w2)
           | ((True, m), w2) \<Rightarrow>
          (case ap_start e aps (invoke ApStart w2) of
             (Inl x, aps', w3) \<Rightarrow> (False, d\<lparr>ap_service := Some aps'\<rparr>, w3)
           | (Inr (ok, m), aps', w3) \<Rightarrow> (ok, d\<lparr>ap_service := Some aps'\<rparr>, w3)))))"

definition start_bridge :: "env \<Rightarrow> bridge_service \<Rightarrow> daemon \<Rightarrow> world \<Rightarrow> bool \<times> daemon \<times> world" where
  "start_bridge e br d w =
     (case bridge_start e br (invoke BridgeStart w) of
        ((True, m), br', w1) \<Rightarrow> (True, d\<lparr>bridge_service := Some br'\<rparr>, w1)
      | ((False, m), br', w1) \<Rightarrow>
          (case ap_service d of
             None \<Rightarrow> (False, d\<lparr>bridge_service := Some br'\<rparr>, w1)
           | Some aps \<Rightarrow>
               (case ap_stop e aps (invoke ApStop w1) of
                  (r, aps', w2) \<Rightarrow>
                    (False, d\<lparr>bridge_service := Some br', ap_service := Some aps'\<rparr>, w2))))"

definition start_services :: "env \<Rightarrow> daemon \<Rightarrow> world \<Rightarrow> bool \<times> daemon \<times> world" where
  "start_services e d w0 =
     (let w = invoke StartServices w0 in
      case (connection_manager d, ap_service d, bridge_service d) of
        (Some cm, Some aps, Some br) \<Rightarrow>
          (case start_upstream e cm d w of
             (False, d1, w1) \<Rightarrow> (False, d1, w1)
           | (True, d1, w1) \<Rightarrow>
               (case start_ap e aps d1 w1 of
                  (False, d2, w2) \<Rightarrow> (False, d2, w2)
                | (True, d2, w2) \<Rightarrow> start_bridge e br d2 w2))
      | _ \<Rightarrow> (False, d, w))"

text \<open>\<open>stop_services\<close>: one \<open>try\<close> block around the four calls. The first two never
  raise; an exception leaving \<open>disconnect\<close> or \<open>delete_virtual_interface\<close> goes to the
  handler, which only logs. The flag \<open>running\<close> is not written.\<close>

definition stop_bridge_layer :: "env \<Rightarrow> daemon \<Rightarrow> world \<Rightarrow> daemon \<times> world" where
  "stop_bridge_layer e d w =
     (case bridge_service d of
        None \<Rightarrow> (d, w)
      | Some br \<Rightarrow>
          (case bridge_stop e br (invoke BridgeStop w) of
             (r, br', w') \<Rightarrow> (d\<lparr>bridge_service := Some br'\<rparr>, w')))"

definition stop_ap_layer :: "env \<Rightarrow> daemon \<Rightarrow> world \<Rightarrow> daemon \<times> world" where
  "stop_ap_layer e d w =
     (case ap_service d of
        None \<Rightarrow> (d, w)
      | Some aps \<Rightarrow>
          (case ap_stop e aps (invoke ApStop w) of
             (r, aps', w') \<Rightarrow> (d\<lparr>ap_service := Some aps'\<rparr>, w')))"

definition stop_upstream_layer :: "env \<Rightarrow> daemon \<Rightarrow> world \<Rightarrow> exn option \<times> daemon \<times> world" where
  "stop_upstream_layer e d w =
     (case connection_manager d of
        None \<Rightarrow> (None, d, w)
      | Some cm \<Rightarrow>
          (case disconnect e cm (invoke UpstreamDisconnect w) of
             (Inl x, cm', w') \<Rightarrow> (Some x, d\<lparr>connection_manager := Some cm'\<rparr>, w')
           | (Inr r, cm', w') \<Rightarrow> (None, d\<lparr>connection_manager := Some cm'\<rparr>, w')))"

definition stop_interface_layer :: "env \<Rightarrow> daemon \<Rightarrow> world \<Rightarrow> daemon \<times> world" where
  "stop_interface_layer e d w =
     (case interface_manager d of
        None \<Rightarrow> (d, w)
      | Some im \<Rightarrow>
          (case delete_virtual_interface e im (invoke VifDelete w) of
             (r, im', w') \<Rightarrow> (d\<lparr>interface_manager := Some im'\<rparr>, w')))"

definition stop_services :: "env \<Rightarrow> daemon \<Rightarrow> world \<Rightarrow> daemon \<times> world" where
  "stop_services e d w =
     (case stop_bridge_layer e d w of
        (d1, w1) \<Rightarrow>
     (case stop_ap_layer e d1 w1 of
        (d2, w2) \<Rightarrow>
     (case stop_upstream_layer e d2 w2 of
        (Some x, d3, w3) \<Rightarrow> (d3, w3)
      | (None, d3, w3) \<Rightarrow> stop_interface_layer e d3 w3)))"

text \<open>The end of an iteration of the service loop: the client count is logged, then
  \<open>time.sleep(30)\<close>.\<close>

definition monitor_ap :: "env \<Rightarrow> daemon \<Rightarrow> world \<Rightarrow> daemon \<times> world" where
  "monitor_ap e d w =
     (case ap_service d of
        None \<Rightarrow> (d, sleep 30 w)
      | Some aps \<Rightarrow>
          (case get_connected_clients e aps w of (clients, w') \<Rightarrow> (d, sleep 30 w')))"

text \<open>One iteration of \<open>while self.running\<close>. The result of the recovery call to
  \<open>start_services\<close> is discarded; an exception from the status probe goes to the
  handler of the iteration, which sleeps five seconds.\<close>

definition tick :: "env \<Rightarrow> daemon \<Rightarrow> world \<Rightarrow> daemon \<times> world" where
  "tick e d w =
     (case connection_manager d of
        None \<Rightarrow> monitor_ap e d w
      | Some cm \<Rightarrow>
          (case get_connection_status e cm w of
             (Inl x, w1) \<Rightarrow> (d, sleep 5 w1)
           | (Inr st, w1) \<Rightarrow>
               if \<not> st_connected st then
                 (case start_services e d w1 of (ok, d2, w2) \<Rightarrow> monitor_ap e d2 w2)
               else monitor_ap e d w1))"

text \<open>The loop, for at most \<open>n\<close> iterations. A signal that has arrived clears
  \<open>running\<close> before the loop test. The first component says whether the loop has
  been left.\<close>

fun service_loop :: "env \<Rightarrow> nat \<Rightarrow> daemon \<Rightarrow> world \<Rightarrow> bool \<times> daemon \<times> world" where
  "service_loop e 0 d w = (False, d, w)"
| "service_loop e (Suc n) d w =
     (let d0 = (if signalled e (length w) then d\<lparr>running := False\<rparr> else d) in
      if running d0 then (case tick e d0 w of (d1, w1) \<Rightarrow> service_loop e n d1 w1)
      else (True, d0, w))"

text \<open>\<open>run\<close>, with the configuration already loaded into the daemon. The \<open>finally\<close>
  clause runs \<open>stop_services\<close> on every way out; \<open>None\<close> is a loop still running
  after \<open>n\<close> iterations.\<close>

definition run :: "env \<Rightarrow> nat \<Rightarrow> daemon \<Rightarrow> world \<Rightarrow> (daemon \<times> world) option" where
  "run e n d w =
     (case initialize_services e (d\<lparr>running := True\<rparr>) w of
        (False, d1, w1) \<Rightarrow> Some (stop_services e d1 w1)
      | (True, d1, w1) \<Rightarrow>
          (case start_services e d1 w1 of
             (False, d2, w2) \<Rightarrow> Some (stop_services e d2 w2)
           | (True, d2, w2) \<Rightarrow>
               (case service_loop e n d2 w2 of
                  (False, d3, w3) \<Rightarrow> None
                | (True, d3, w3) \<Rightarrow> Some (stop_services e d3 w3))))"

section \<open>Observations and scenarios\<close>

text \<open>The collaborator calls made between two worlds, and the calls that tear a layer
  down.\<close>

definition new_calls :: "world \<Rightarrow> world \<Rightarrow> call list" where
  "new_calls w w' = drop (length (calls w)) (calls w')"

definition is_teardown :: "call \<Rightarrow> bool" where
  "is_teardown c = (c \<in> set [BridgeStop, ApStop, UpstreamDisconnect, VifDelete])"

definition never_noexec :: "env \<Rightarrow> bool" where
  "never_noexec e = (\<forall>n c. proc e n c \<noteq> NoExec)"

definition can_run :: "env \<Rightarrow> string \<Rightarrow> bool" where
  "can_run e prog = (\<forall>n c. take 1 c = [prog] \<longrightarrow> proc e n c \<noteq> NoExec)"

definition always_exit0 :: "env \<Rightarrow> bool" where
  "always_exit0 e = (\<forall>n c. \<exists>out. proc e n c = Exit 0 out)"

definition upstream_down :: "env \<Rightarrow> bool" where
  "upstream_down e = (\<forall>n i. \<exists>st. detector e n i = Status st \<and> \<not> st_connected st)"

definition no_signal :: "env \<Rightarrow> bool" where
  "no_signal e = (\<forall>n. \<not> signalled e n)"

text \<open>The scenario of the specification: the radio \<open>wlan0\<close>, upstream network
  \<open>Home\<close>, hotspot \<open>Extend\<close> on channel 6.\<close>

definition home_status :: iface_status where
  "home_status =
     \<lparr>st_active = True, st_connected = True, st_ssid = Some ''Home'',
      st_ip_address = Some ''192.168.1.50'', st_mode = Some ''Managed''\<rparr>"

definition down_status :: iface_status where
  "down_status =
     \<lparr>st_active = False, st_connected = False, st_ssid = None,
      st_ip_address = None, st_mode = None\<rparr>"

definition home_config :: config where
  "home_config =
     \<lparr>upstream = Some \<lparr>up_ssid = ''Home'', up_password = Some ''secret123''\<rparr>,
      ap = Some \<lparr>cfg_ssid = ''Extend'', cfg_password = None, cfg_channel = Some 6\<rparr>\<rparr>"

text \<open>Every command exits with 0 and prints nothing, every file operation succeeds,
  there is no lease file, the upstream is connected to \<open>Home\<close>, no signal arrives.\<close>

definition env_ok :: env where
  "env_ok =
     \<lparr>proc = \<lambda>n c. Exit 0 [], write_ok = \<lambda>n p. True, file_exists = \<lambda>n p. False,
      file_lines = \<lambda>n p. Cannot_open, remove_ok = \<lambda>n p. True,
      detector = \<lambda>n i. Status home_status, signalled = \<lambda>n. False\<rparr>"

text \<open>As \<open>env_ok\<close>, but every \<open>iptables\<close> command exits with 1.\<close>

definition env_nat_fails :: env where
  "env_nat_fails = env_ok\<lparr>proc := \<lambda>n c. if take 1 c = [''iptables''] then Exit 1 [] else Exit 0 []\<rparr>"

text \<open>As \<open>env_ok\<close>, but deleting an interface with \<open>iw dev ... del\<close> exits with 1.\<close>

definition env_del_fails :: env where
  "env_del_fails = env_ok\<lparr>proc := \<lambda>n c. if drop 3 c = [''del''] then Exit 1 [] else Exit 0 []\<rparr>"

text \<open>Every command exits with 1 and the upstream is down.\<close>

definition env_down :: env where
  "env_down = env_ok\<lparr>proc := \<lambda>n c. Exit 1 [], detector := \<lambda>n i. Status down_status\<rparr>"

text \<open>As \<open>env_ok\<close>, but the station dump reports one associated station.\<close>

definition one_station :: string where
  "one_station = ''Station aa:bb:cc:dd:ee:ff (on wlan0_ap0)'' @ [CHR 0x0A] @ ''signal: -50 dBm''"

definition env_station :: env where
  "env_station = env_ok\<lparr>proc := \<lambda>n c. if take 1 c = [''iw''] then Exit 0 one_station else Exit 0 []\<rparr>"

text \<open>The daemon as \<open>initialize_services\<close> leaves it inside \<open>run\<close> on \<open>wlan0\<close>.\<close>

definition ready_daemon :: daemon where
  "ready_daemon =
     \<lparr>suitable_interfaces = [''wlan0''], interface = Some ''wlan0'',
      connection_manager = Some (new_connection_manager ''wlan0''),
      interface_manager = Some \<lparr>physical_interface = ''wlan0'', virtual_interface = Some ''wlan0_ap0''\<rparr>,
      ap_service = Some (new_ap_service ''wlan0_ap0''),
      bridge_service = Some (new_bridge_service ''wlan0'' ''wlan0_ap0''),
      running = True, config = home_config\<rparr>"

text \<open>As \<open>env_station\<close>, with a lease file of three lines: the phone has a lease but
  is not in the station dump, the laptop is in both, and the last line has only four
  fields.\<close>

definition lease_file :: "string list" where
  "lease_file =
     [''1645000000 00:11:22:33:44:55 192.168.4.2 android-phone 01:23:45:67:89:ab'',
      ''1645000001 aa:bb:cc:dd:ee:ff 192.168.4.3 laptop *'',
      ''1645000002 11:22:33:44:55:66 192.168.4.4 printer'']"

definition env_leases :: env where
  "env_leases = env_station\<lparr>file_exists := \<lambda>n p. True, file_lines := \<lambda>n p. Lines lease_file False\<rparr>"

text \<open>As \<open>env_leases\<close>, but reading the lease file fails after its first line.\<close>

definition env_lease_error :: env where
  "env_lease_error = env_station\<lparr>file_exists := \<lambda>n p. True,
                                   file_lines := \<lambda>n p. Lines (take 1 lease_file) True\<rparr>"

text \<open>The first two blocks of \<open>start_services\<close> in the scenario where the NAT rules
  cannot be installed: the state in which the bridge is started.\<close>

definition nat_fails_upstream :: "bool \<times> daemon \<times> world" where
  "nat_fails_upstream =
     start_upstream env_nat_fails (new_connection_manager ''wlan0'') ready_daemon
       (invoke StartServices [])"

definition nat_fails_ap :: "bool \<times> daemon \<times> world" where
  "nat_fails_ap =
     start_ap env_nat_fails (new_ap_service ''wlan0_ap0'') (fst (snd nat_fails_upstream))
       (snd (snd nat_fails_upstream))"

text \<open>The daemon after a successful \<open>start_services\<close> in \<open>env_ok\<close>: connected to
  \<open>Home\<close>, access point and bridge running, the three rules installed.\<close>

definition started_daemon :: daemon where
  "started_daemon =
     ready_daemon
       \<lparr>connection_manager :=
          Some \<lparr>cm_interface = ''wlan0'', current_connection = Some (with_link home_status None None)\<rparr>,
        ap_service := Some ((new_ap_service ''wlan0_ap0'')\<lparr>ap_is_running := True\<rparr>),
        bridge_service :=
          Some ((new_bridge_service ''wlan0'' ''wlan0_ap0'')
                  \<lparr>br_is_running := True,
                   iptables_rules := routing_rules (new_bridge_service ''wlan0'' ''wlan0_ap0'')\<rparr>)\<rparr>"

text \<open>No teardown command succeeds: \<open>ip\<close> cannot be executed, every other command exits
  with 1; files can still be written and removed.\<close>

definition env_all_fail :: env where
  "env_all_fail = env_ok\<lparr>proc := \<lambda>n c. if take 1 c = [''ip''] then NoExec else Exit 1 []\<rparr>"

text \<open>As \<open>env_ok\<close>, on a system without the \<open>killall\<close> program.\<close>

definition env_no_killall :: env where
  "env_no_killall = env_ok\<lparr>proc := \<lambda>n c. if take 1 c = [''killall''] then NoExec else Exit 0 []\<rparr>"

section \<open>Results\<close>

subsection \<open>Collaborator code makes no daemon-level call\<close>

lemma calls_append [simp]: "calls (w @ v) = calls w @ calls v"
  by (simp add: calls_def)

lemma calls_Nil [simp]: "calls [] = []"
  by (simp add: calls_def)

lemma calls_Cons [simp]: "calls (x # w) = (case x of Invoke c \<Rightarrow> c # calls w | _ \<Rightarrow> calls w)"
  by (simp add: calls_def split: effect.splits)

lemma calls_invoke [simp]: "calls (invoke c w) = calls w @ [c]"
  by (simp add: invoke_def)

lemma calls_sleep [simp]: "calls (sleep n w) = calls w"
  by (simp add: sleep_def)

lemma new_calls_append [simp]: "calls w' = calls w @ cs \<Longrightarrow> new_calls w w' = cs"
  by (simp add: new_calls_def)

lemma calls_run_cmd: "run_cmd e chk c w = (r, w') \<Longrightarrow> calls w' = calls w"
  by (auto simp: run_cmd_def split: answer.splits if_splits)

lemma calls_run_all: "run_all e cs w = (r, w') \<Longrightarrow> calls w' = calls w"
  by (induction cs arbitrary: w) (auto split: prod.splits sum.splits dest: calls_run_cmd)

lemma calls_write_file: "write_file e p t w = (r, w') \<Longrightarrow> calls w' = calls w"
  by (auto simp: write_file_def)

lemma calls_remove_if_exists: "remove_if_exists e p w = (r, w') \<Longrightarrow> calls w' = calls w"
  by (auto simp: remove_if_exists_def path_exists_def remove_file_def split: prod.splits bool.splits)

lemma calls_create_vif: "create_virtual_interface e s im w = (r, im', w') \<Longrightarrow> calls w' = calls w"
  by (auto simp: create_virtual_interface_def Let_def split: prod.splits sum.splits if_splits
           dest: calls_run_cmd)

lemma calls_delete_vif: "delete_virtual_interface e im w = (r, im', w') \<Longrightarrow> calls w' = calls w"
  by (auto simp: delete_virtual_interface_def split: prod.splits sum.splits if_splits
           dest: calls_run_cmd)

lemma calls_configure_ap: "configure_ap e a s p c h w = (r, w') \<Longrightarrow> calls w' = calls w"
  by (auto simp: configure_ap_def split: prod.splits bool.splits dest: calls_write_file)

lemma calls_configure_dhcp: "configure_dhcp e a s p c w = (r, w') \<Longrightarrow> calls w' = calls w"
  by (auto simp: configure_dhcp_def split: prod.splits bool.splits dest: calls_write_file)

lemma calls_ap_stop: "ap_stop e a w = (r, a', w') \<Longrightarrow> calls w' = calls w"
  by (auto simp: ap_stop_def split: prod.splits sum.splits bool.splits
           dest!: calls_run_cmd calls_remove_if_exists)

lemma calls_ap_start: "ap_start e a w = (r, a', w') \<Longrightarrow> calls w' = calls w"
  by (auto simp del: run_all.simps simp: ap_start_def split: prod.splits option.splits if_splits
           dest!: calls_run_all calls_ap_stop)

lemma calls_get_connection_status: "get_connection_status e cm w = (r, w') \<Longrightarrow> calls w' = calls w"
  by (auto simp: get_connection_status_def Let_def
           split: detected.splits prod.splits sum.splits if_splits dest!: calls_run_cmd)

lemma calls_request_connection:
  "request_connection e cm s p w = (r, w') \<Longrightarrow> calls w' = calls w"
  by (auto simp: request_connection_def split: prod.splits sum.splits bool.splits
           dest!: calls_run_cmd calls_write_file)

lemma calls_connect: "connect_to_network e cm s p w = (r, cm', w') \<Longrightarrow> calls w' = calls w"
  by (auto simp: connect_to_network_def split: prod.splits sum.splits option.splits if_splits
           dest!: calls_request_connection calls_get_connection_status)

lemma calls_disconnect: "disconnect e cm w = (r, cm', w') \<Longrightarrow> calls w' = calls w"
  by (auto simp: disconnect_def split: prod.splits sum.splits if_splits dest!: calls_run_cmd)

lemma calls_setup_bridge: "setup_bridge e br w = (r, w') \<Longrightarrow> calls w' = calls w"
  by (auto simp del: run_all.simps simp: setup_bridge_def
           split: prod.splits option.splits if_splits dest!: calls_run_all)

lemma calls_install_rules: "install_rules e rs br w = (r, br', w') \<Longrightarrow> calls w' = calls w"
  by (induction rs arbitrary: br w) (auto split: prod.splits sum.splits dest!: calls_run_cmd)

lemma calls_setup_routing: "setup_routing e br w = (r, br', w') \<Longrightarrow> calls w' = calls w"
  by (auto simp: setup_routing_def split: prod.splits option.splits bool.splits
           dest!: calls_write_file calls_install_rules)

lemma calls_cleanup_bridge: "cleanup_bridge e br w = (r, w') \<Longrightarrow> calls w' = calls w"
  by (auto simp: cleanup_bridge_def split: prod.splits sum.splits dest!: calls_run_cmd)

lemma calls_remove_rules: "remove_rules e rs w = (r, w') \<Longrightarrow> calls w' = calls w"
  by (induction rs arbitrary: w) (auto split: prod.splits sum.splits dest!: calls_run_cmd)

lemma calls_bridge_stop: "bridge_stop e br w = (r, br', w') \<Longrightarrow> calls w' = calls w"
  by (auto simp: bridge_stop_def Let_def split: prod.splits option.splits bool.splits
           dest!: calls_remove_rules calls_write_file calls_cleanup_bridge)

lemma calls_bridge_start: "bridge_start e br w = (r, br', w') \<Longrightarrow> calls w' = calls w"
  by (auto simp: bridge_start_def split: prod.splits sum.splits option.splits bool.splits
           dest!: calls_setup_bridge calls_setup_routing calls_cleanup_bridge calls_bridge_stop)

lemma calls_get_connected_clients: "get_connected_clients e a w = (r, w') \<Longrightarrow> calls w' = calls w"
  by (auto simp: get_connected_clients_def read_leases_def path_exists_def read_lines_def
           split: prod.splits sum.splits file_read.splits bool.splits if_splits
           dest!: calls_run_cmd)

subsection \<open>Evaluating the model on a scenario\<close>

lemmas os_defs = run_cmd_def sleep_def write_file_def path_exists_def remove_file_def
  read_lines_def invoke_def

lemmas collaborator_defs =
  create_virtual_interface_def delete_virtual_interface_def truthy_def is_cpe_def
  configure_ap_def configure_dhcp_def remove_if_exists_def ap_stop_def ap_start_def
  ap_start_commands_def read_leases_def get_connected_clients_def station_dump_def
  get_connection_status_def request_connection_def connect_to_network_def verified_def
  with_link_def disconnect_def setup_bridge_def routing_rules_def setup_routing_def
  cleanup_bridge_def delete_rule_def bridge_stop_def bridge_start_def field_after_def
  new_interface_manager_def new_ap_service_def new_connection_manager_def new_bridge_service_def

lemmas daemon_defs =
  initialize_services_def start_upstream_def start_ap_def start_bridge_def start_services_def
  stop_bridge_layer_def stop_ap_layer_def stop_upstream_layer_def stop_interface_layer_def
  stop_services_def monitor_ap_def tick_def run_def new_daemon_def

lemmas scenario_defs =
  home_status_def down_status_def home_config_def env_ok_def env_nat_fails_def
  env_del_fails_def env_down_def env_station_def one_station_def ready_daemon_def
  env_leases_def lease_file_def env_lease_error_def env_no_killall_def env_all_fail_def
  started_daemon_def

lemma triple_collapse: "x = (fst x, fst (snd x), snd (snd x))"
  by simp

lemma ready_daemon_initialized:
  "initialize_services env_ok ((new_daemon [''wlan0''])\<lparr>running := True, config := home_config\<rparr>) [] =
     (True, ready_daemon,
      [Invoke VifCreate, Run [''iw'', ''dev'', ''wlan0'', ''interface'', ''add'', ''wlan0_ap0'', ''type'', ''__ap'']])"
  by (simp add: os_defs collaborator_defs daemon_defs scenario_defs Let_def)

subsection \<open>Rollback inside \<open>start_services\<close>\<close>

lemma start_upstream_calls:
  "start_upstream e cm d w = (ok, d1, w1) \<Longrightarrow>
     calls w1 = calls w @ (if upstream (config d) = None then [] else [UpstreamConnect])
     \<and> ap_service d1 = ap_service d"
  by (auto simp: start_upstream_def split: option.splits prod.splits dest!: calls_connect)

lemma start_ap_calls:
  "start_ap e aps d w = (ok, d1, w1) \<Longrightarrow>
     (\<exists>cs. calls w1 = calls w @ cs \<and> set cs \<subseteq> {ApConfigure, ApConfigureDhcp, ApStart})
     \<and> (ap_service d \<noteq> None \<longrightarrow> ap_service d1 \<noteq> None)"
  by (auto simp: start_ap_def split: option.splits prod.splits bool.splits sum.splits
      dest!: calls_configure_ap calls_configure_dhcp calls_ap_start)

lemma start_bridge_calls:
  "start_bridge e br d w = (ok, d1, w1) \<Longrightarrow> ap_service d \<noteq> None \<Longrightarrow>
     calls w1 = calls w @ (if ok then [BridgeStart] else [BridgeStart, ApStop])"
  by (auto simp: start_bridge_def split: option.splits prod.splits bool.splits
      dest!: calls_bridge_start calls_ap_stop)

text \<open>The calls of one \<open>start_services\<close>: the upstream block, the access-point block,
  the bridge block; \<open>ApStop\<close> only directly after a failed \<open>BridgeStart\<close>.\<close>

lemma start_services_calls:
  assumes "start_services e d w = (ok, d', w')"
  shows "\<exists>us as bs. calls w' = calls w @ StartServices # us @ as @ bs
           \<and> set us \<subseteq> {UpstreamConnect}
           \<and> set as \<subseteq> {ApConfigure, ApConfigureDhcp, ApStart}
           \<and> (bs = [] \<and> \<not> ok \<or> ok \<and> bs = [BridgeStart] \<or> \<not> ok \<and> bs = [BridgeStart, ApStop])"
proof (cases "connection_manager d")
  case None
  with assms have "calls w' = calls w @ [StartServices]" "\<not> ok"
    by (auto simp: start_services_def Let_def)
  then show ?thesis by (intro exI [of _ "[]"]) simp
next
  case cm: (Some cm)
  show ?thesis
  proof (cases "ap_service d")
    case None
    with assms cm have "calls w' = calls w @ [StartServices]" "\<not> ok"
      by (auto simp: start_services_def Let_def)
    then show ?thesis by (intro exI [of _ "[]"]) simp
  next
    case aps: (Some aps)
    show ?thesis
    proof (cases "bridge_service d")
      case None
      with assms cm aps have "calls w' = calls w @ [StartServices]" "\<not> ok"
        by (auto simp: start_services_def Let_def)
      then show ?thesis by (intro exI [of _ "[]"]) simp
    next
      case br: (Some br)
      obtain ok1 d1 w1 where u: "start_upstream e cm d (invoke StartServices w) = (ok1, d1, w1)"
        by (metis prod_cases3)
      from start_upstream_calls [OF u]
      obtain us where us: "calls w1 = calls w @ StartServices # us" "set us \<subseteq> {UpstreamConnect}"
        and d1: "ap_service d1 = ap_service d"
        by (cases "upstream (config d)") auto
      show ?thesis
      proof (cases ok1)
        case False
        with assms cm aps br u have "w' = w1" "\<not> ok"
          by (auto simp: start_services_def Let_def)
        with us show ?thesis
          by (intro exI [of _ us] exI [of _ "[]"]) simp
      next
        case True
        obtain ok2 d2 w2 where a: "start_ap e aps d1 w1 = (ok2, d2, w2)"
          by (metis prod_cases3)
        from start_ap_calls [OF a] d1 aps
        obtain as where as: "calls w2 = calls w1 @ as" "set as \<subseteq> {ApConfigure, ApConfigureDhcp, ApStart}"
          and d2: "ap_service d2 \<noteq> None"
          by auto
        show ?thesis
        proof (cases ok2)
          case False
          with assms cm aps br u a True have "w' = w2" "\<not> ok"
            by (auto simp: start_services_def Let_def)
          with us as show ?thesis
            by (intro exI [of _ us] exI [of _ as] exI [of _ "[]"]) simp
        next
          case ok2: True
          with assms cm aps br u a True have b: "start_bridge e br d2 w2 = (ok, d', w')"
            by (auto simp: start_services_def Let_def)
          from start_bridge_calls [OF b d2] us as
          have "calls w' = calls w @ StartServices # us @ as
                  @ (if ok then [BridgeStart] else [BridgeStart, ApStop])"
            by simp
          with us as show ?thesis
            by (intro exI [of _ us] exI [of _ as]
                      exI [of _ "if ok then [BridgeStart] else [BridgeStart, ApStop]"]) simp
        qed
      qed
    qed
  qed
qed

lemma start_upstream_frame:
  "start_upstream e cm d w = (ok, d1, w1) \<Longrightarrow>
     running d1 = running d \<and> (connection_manager d \<noteq> None \<longrightarrow> connection_manager d1 \<noteq> None)"
  by (auto simp: start_upstream_def split: option.splits prod.splits)

lemma start_ap_frame:
  "start_ap e aps d w = (ok, d1, w1) \<Longrightarrow>
     running d1 = running d \<and> connection_manager d1 = connection_manager d"
  by (auto simp: start_ap_def split: option.splits prod.splits bool.splits sum.splits)

lemma start_bridge_frame:
  "start_bridge e br d w = (ok, d1, w1) \<Longrightarrow>
     running d1 = running d \<and> connection_manager d1 = connection_manager d"
  by (auto simp: start_bridge_def split: option.splits prod.splits bool.splits)

lemma start_services_frame:
  "start_services e d w = (ok, d', w') \<Longrightarrow>
     running d' = running d \<and> (connection_manager d \<noteq> None \<longrightarrow> connection_manager d' \<noteq> None)"
  by (auto simp: start_services_def Let_def split: option.splits prod.splits bool.splits
      dest!: start_upstream_frame start_ap_frame start_bridge_frame)

lemma is_teardown_simps [simp]:
  "is_teardown StartServices = False" "is_teardown UpstreamConnect = False"
  "is_teardown ApConfigure = False" "is_teardown ApConfigureDhcp = False"
  "is_teardown ApStart = False" "is_teardown BridgeStart = False" "is_teardown VifCreate = False"
  "is_teardown ApStop = True" "is_teardown BridgeStop = True"
  "is_teardown UpstreamDisconnect = True" "is_teardown VifDelete = True"
  by (simp_all add: is_teardown_def)

lemma filter_none: "set xs \<subseteq> A \<Longrightarrow> \<forall>x\<in>A. \<not> P x \<Longrightarrow> filter P xs = []"
  by (induction xs) auto

lemma nat_fails_scenario:
  "(case start_services env_nat_fails ready_daemon [] of (ok, d', w') \<Rightarrow> (ok, calls w')) =
     (False, [StartServices, UpstreamConnect, ApConfigure, ApConfigureDhcp, ApStart,
              BridgeStart, ApStop])"
  by (simp add: os_defs collaborator_defs daemon_defs scenario_defs Let_def)

lemma start_bridge_result:
  "start_bridge e br d w = (ok, d1, w1) \<Longrightarrow> ok = fst (fst (bridge_start e br (invoke BridgeStart w)))"
  by (auto simp: start_bridge_def split: option.splits prod.splits bool.splits)

lemma nat_fails_blocks:
  "fst nat_fails_upstream" "fst nat_fails_ap"
  "ap_service (fst (snd nat_fails_ap)) \<noteq> None"
  "\<not> fst (fst (bridge_start env_nat_fails (new_bridge_service ''wlan0'' ''wlan0_ap0'')
                 (invoke BridgeStart (snd (snd nat_fails_ap)))))"
  by (simp_all add: nat_fails_upstream_def nat_fails_ap_def os_defs collaborator_defs daemon_defs
      scenario_defs Let_def)

text \<open>
  C1 (as amended). When the upstream and access-point steps of \<open>start_services\<close> have
  succeeded, the result of \<open>start_services\<close> is the result of
  \<open>BridgeService.start\<close>: if that call fails, \<open>start_services\<close> calls
  \<open>APService.stop\<close> exactly once, directly after it, and returns \<open>False\<close>. This is
  the only rollback: whatever step fails, \<open>start_services\<close> makes no other teardown
  call, it never calls \<open>ConnectionManager.disconnect\<close> or
  \<open>InterfaceManager.delete_virtual_interface\<close>, and a failure before the bridge step
  undoes nothing.
\<close>

theorem start_services_rollback:
  assumes "start_services e d w = (ok, d', w')"
  shows "filter is_teardown (new_calls w w') =
           (if BridgeStart \<in> set (new_calls w w') \<and> \<not> ok then [ApStop] else [])
       \<and> (\<forall>cm aps br d1 w1 d2 w2.
            connection_manager d = Some cm \<and> ap_service d = Some aps \<and> bridge_service d = Some br
            \<and> start_upstream e cm d (invoke StartServices w) = (True, d1, w1)
            \<and> start_ap e aps d1 w1 = (True, d2, w2) \<longrightarrow>
              ok = fst (fst (bridge_start e br (invoke BridgeStart w2)))
              \<and> new_calls w2 w' = (if ok then [BridgeStart] else [BridgeStart, ApStop]))"
proof (intro conjI allI impI)
  from start_services_calls [OF assms] obtain us as bs where
    c: "calls w' = calls w @ StartServices # us @ as @ bs"
    and us: "set us \<subseteq> {UpstreamConnect}"
    and as: "set as \<subseteq> {ApConfigure, ApConfigureDhcp, ApStart}"
    and bs: "bs = [] \<and> \<not> ok \<or> ok \<and> bs = [BridgeStart] \<or> \<not> ok \<and> bs = [BridgeStart, ApStop]"
    by blast
  have n: "new_calls w w' = StartServices # us @ as @ bs" using c by simp
  have fu: "filter is_teardown us = []" using us by (rule filter_none) simp
  have fa: "filter is_teardown as = []" using as by (rule filter_none) simp
  have nb: "BridgeStart \<notin> set us" "BridgeStart \<notin> set as" using us as by auto
  from bs show "filter is_teardown (new_calls w w') =
           (if BridgeStart \<in> set (new_calls w w') \<and> \<not> ok then [ApStop] else [])"
    using n fu fa nb by auto
next
  fix cm aps br d1 w1 d2 w2
  assume h: "connection_manager d = Some cm \<and> ap_service d = Some aps \<and> bridge_service d = Some br
            \<and> start_upstream e cm d (invoke StartServices w) = (True, d1, w1)
            \<and> start_ap e aps d1 w1 = (True, d2, w2)"
  with assms have b: "start_bridge e br d2 w2 = (ok, d', w')"
    by (simp add: start_services_def Let_def)
  from h have hu: "start_upstream e cm d (invoke StartServices w) = (True, d1, w1)"
    and ha: "start_ap e aps d1 w1 = (True, d2, w2)" and aps: "ap_service d = Some aps"
    by simp_all
  from start_upstream_calls [OF hu] aps have "ap_service d1 \<noteq> None" by simp
  with start_ap_calls [OF ha] have d2: "ap_service d2 \<noteq> None" by simp
  from start_bridge_result [OF b]
  show "ok = fst (fst (bridge_start e br (invoke BridgeStart w2)))" .
  from start_bridge_calls [OF b d2]
  show "new_calls w2 w' = (if ok then [BridgeStart] else [BridgeStart, ApStop])"
    by (rule new_calls_append)
qed

text \<open>The scenario of the specification: interface created, upstream connected, access
  point started, then the first NAT rule cannot be installed, so that
  \<open>BridgeService.start\<close> fails.\<close>

theorem start_services_rollback_witness:
  "fst nat_fails_upstream \<and> fst nat_fails_ap
   \<and> \<not> fst (fst (bridge_start env_nat_fails (new_bridge_service ''wlan0'' ''wlan0_ap0'')
                   (invoke BridgeStart (snd (snd nat_fails_ap)))))
   \<and> \<not> fst (start_services env_nat_fails ready_daemon [])
   \<and> new_calls (snd (snd nat_fails_ap)) (snd (snd (start_services env_nat_fails ready_daemon []))) =
       [BridgeStart, ApStop]
   \<and> filter is_teardown (new_calls [] (snd (snd (start_services env_nat_fails ready_daemon []))))
       = [ApStop]"
proof -
  note th = start_services_rollback [where e = env_nat_fails and d = ready_daemon and w = "[]",
                                     OF triple_collapse]
  have cs: "connection_manager ready_daemon = Some (new_connection_manager ''wlan0'')"
    "ap_service ready_daemon = Some (new_ap_service ''wlan0_ap0'')"
    "bridge_service ready_daemon = Some (new_bridge_service ''wlan0'' ''wlan0_ap0'')"
    by (simp_all add: ready_daemon_def)
  have u: "start_upstream env_nat_fails (new_connection_manager ''wlan0'') ready_daemon
             (invoke StartServices []) =
           (True, fst (snd nat_fails_upstream), snd (snd nat_fails_upstream))"
    using nat_fails_blocks(1) by (simp add: nat_fails_upstream_def prod_eq_iff)
  have a: "start_ap env_nat_fails (new_ap_service ''wlan0_ap0'') (fst (snd nat_fails_upstream))
             (snd (snd nat_fails_upstream)) =
           (True, fst (snd nat_fails_ap), snd (snd nat_fails_ap))"
    using nat_fails_blocks(2) by (simp add: nat_fails_ap_def prod_eq_iff)
  from th have
    "fst (start_services env_nat_fails ready_daemon []) =
       fst (fst (bridge_start env_nat_fails (new_bridge_service ''wlan0'' ''wlan0_ap0'')
                   (invoke BridgeStart (snd (snd nat_fails_ap)))))
     \<and> new_calls (snd (snd nat_fails_ap)) (snd (snd (start_services env_nat_fails ready_daemon []))) =
         (if fst (start_services env_nat_fails ready_daemon []) then [BridgeStart]
          else [BridgeStart, ApStop])"
    using cs u a by blast
  moreover from th nat_fails_scenario
  have "filter is_teardown (new_calls [] (snd (snd (start_services env_nat_fails ready_daemon []))))
          = [ApStop]"
    by (simp add: new_calls_def split: prod.splits)
  ultimately show ?thesis using nat_fails_blocks by simp
qed

text \<open>In that scenario the upstream link is not disconnected and the virtual interface
  is not deleted, so the three rollback calls of the specification do not happen.\<close>

theorem start_services_no_full_rollback:
  "(case initialize_services env_nat_fails
            ((new_daemon [''wlan0''])\<lparr>running := True, config := home_config\<rparr>) [] of
      (ok0, d, w) \<Rightarrow>
        (case start_services env_nat_fails d w of
           (ok, d', w') \<Rightarrow> (ok0, ok, calls w', filter is_teardown (new_calls w w')))) =
   (True, False,
    [VifCreate, StartServices, UpstreamConnect, ApConfigure, ApConfigureDhcp, ApStart,
     BridgeStart, ApStop],
    [ApStop])"
  by (simp add: os_defs collaborator_defs daemon_defs scenario_defs Let_def new_calls_def)


text \<open>The other layers are left to \<open>stop_services\<close>, which \<open>run\<close> calls in its
  \<open>finally\<close> clause: in the same scenario \<open>run\<close> as a whole stops the bridge, stops the
  access point a second time, disconnects and deletes the virtual interface.\<close>

lemma run_after_failed_start:
  "map_option (\<lambda>(d, w). calls w)
     (run env_nat_fails n ((new_daemon [''wlan0''])\<lparr>config := home_config\<rparr>) []) =
   Some [VifCreate, StartServices, UpstreamConnect, ApConfigure, ApConfigureDhcp, ApStart,
         BridgeStart, ApStop, BridgeStop, ApStop, UpstreamDisconnect, VifDelete]"
  by (simp add: os_defs collaborator_defs daemon_defs scenario_defs Let_def)

subsection \<open>Teardown by \<open>stop_services\<close>\<close>

lemma run_cmd_raises_cpe:
  "proc e (length w) c \<noteq> NoExec \<Longrightarrow> run_cmd e chk c w = (Inl x, w') \<Longrightarrow> is_cpe x"
  by (auto simp: run_cmd_def is_cpe_def split: answer.splits if_splits)

lemma disconnect_returns:
  assumes "can_run e ''killall''" and "can_run e ''dhclient''"
    and "disconnect e cm w = (r, cm', w')"
  shows "\<exists>res. r = Inr res"
proof -
  have k: "proc e n [''killall'', ''wpa_supplicant''] \<noteq> NoExec" for n
    using assms(1) by (simp add: can_run_def)
  have h: "proc e n [''dhclient'', ''-r'', i] \<noteq> NoExec" for n i
    using assms(2) by (simp add: can_run_def)
  from assms(3) show ?thesis
    by (auto simp: disconnect_def split: prod.splits sum.splits if_splits
        dest: run_cmd_raises_cpe [OF k] run_cmd_raises_cpe [OF h])
qed

lemma stop_bridge_layer_calls:
  "stop_bridge_layer e d w = (d', w') \<Longrightarrow>
     calls w' = calls w @ (if bridge_service d = None then [] else [BridgeStop])
     \<and> running d' = running d \<and> ap_service d' = ap_service d
     \<and> connection_manager d' = connection_manager d \<and> interface_manager d' = interface_manager d"
  by (auto simp: stop_bridge_layer_def split: option.splits prod.splits dest!: calls_bridge_stop)

lemma stop_ap_layer_calls:
  "stop_ap_layer e d w = (d', w') \<Longrightarrow>
     calls w' = calls w @ (if ap_service d = None then [] else [ApStop])
     \<and> running d' = running d
     \<and> connection_manager d' = connection_manager d \<and> interface_manager d' = interface_manager d"
  by (auto simp: stop_ap_layer_def split: option.splits prod.splits dest!: calls_ap_stop)

lemma stop_upstream_layer_calls:
  "stop_upstream_layer e d w = (x, d', w') \<Longrightarrow>
     calls w' = calls w @ (if connection_manager d = None then [] else [UpstreamDisconnect])
     \<and> running d' = running d \<and> interface_manager d' = interface_manager d"
  by (auto simp: stop_upstream_layer_def split: option.splits prod.splits sum.splits
      dest!: calls_disconnect)

lemma stop_upstream_layer_returns:
  "can_run e ''killall'' \<Longrightarrow> can_run e ''dhclient'' \<Longrightarrow>
     stop_upstream_layer e d w = (x, d', w') \<Longrightarrow> x = None"
  by (auto simp: stop_upstream_layer_def split: option.splits prod.splits sum.splits
      dest: disconnect_returns)

lemma stop_interface_layer_calls:
  "stop_interface_layer e d w = (d', w') \<Longrightarrow>
     calls w' = calls w @ (if interface_manager d = None then [] else [VifDelete])
     \<and> running d' = running d"
  by (auto simp: stop_interface_layer_def split: option.splits prod.splits dest!: calls_delete_vif)

lemma del_fails_scenario:
  "(case stop_services env_del_fails ready_daemon [] of
      (d', w') \<Rightarrow> (running d', map_option virtual_interface (interface_manager d'), calls w')) =
   (True, Some (Some ''wlan0_ap0''), [BridgeStop, ApStop, UpstreamDisconnect, VifDelete])"
  by (simp add: os_defs collaborator_defs daemon_defs scenario_defs Let_def)

lemma started_daemon_started:
  "(case start_services env_ok ready_daemon [] of (ok, d', w') \<Rightarrow> (ok, d')) = (True, started_daemon)"
  by (simp add: os_defs collaborator_defs daemon_defs scenario_defs py_in.simps Let_def)

lemma all_fail_scenario:
  "(case stop_services env_all_fail started_daemon [] of
      (d', w') \<Rightarrow>
        (calls w', running d',
         map_option br_is_running (bridge_service d'),
         map_option ap_is_running (ap_service d'),
         map_option current_connection (connection_manager d'),
         map_option virtual_interface (interface_manager d'))) =
   ([BridgeStop, ApStop, UpstreamDisconnect, VifDelete], True,
    Some True, Some True, Some (Some (with_link home_status None None)),
    Some (Some ''wlan0_ap0''))"
  by (simp add: os_defs collaborator_defs daemon_defs scenario_defs ip_forward_path_def Let_def)

text \<open>
  C8 (as amended). From every daemon state, provided the two programs that
  \<open>disconnect\<close> runs (\<open>killall\<close> and \<open>dhclient\<close>) can be executed, \<open>stop_services\<close>
  calls, in this order, \<open>BridgeService.stop\<close>, \<open>APService.stop\<close>,
  \<open>ConnectionManager.disconnect\<close> and \<open>InterfaceManager.delete_virtual_interface\<close>,
  each exactly once on the collaborator that has been created, whatever the earlier
  calls returned and whichever other commands fail. It does not write the flag
  \<open>running\<close>; the daemon has no other lifecycle state that it could be driven to.
\<close>

theorem stop_services_order:
  assumes "can_run e ''killall''" and "can_run e ''dhclient''"
    and "stop_services e d w = (d', w')"
  shows "new_calls w w' =
           (if bridge_service d = None then [] else [BridgeStop])
         @ (if ap_service d = None then [] else [ApStop])
         @ (if connection_manager d = None then [] else [UpstreamDisconnect])
         @ (if interface_manager d = None then [] else [VifDelete])
       \<and> running d' = running d"
proof -
  obtain d1 w1 where b: "stop_bridge_layer e d w = (d1, w1)" by (metis surj_pair)
  obtain d2 w2 where a: "stop_ap_layer e d1 w1 = (d2, w2)" by (metis surj_pair)
  obtain x d3 w3 where u: "stop_upstream_layer e d2 w2 = (x, d3, w3)" by (metis prod_cases3)
  from stop_upstream_layer_returns [OF assms(1,2) u] have x: "x = None" .
  with assms(3) b a u have i: "stop_interface_layer e d3 w3 = (d', w')"
    by (simp add: stop_services_def)
  note B = stop_bridge_layer_calls [OF b] and A = stop_ap_layer_calls [OF a]
    and U = stop_upstream_layer_calls [OF u] and I = stop_interface_layer_calls [OF i]
  have "calls w' = calls w @
           ((if bridge_service d = None then [] else [BridgeStop])
         @ (if ap_service d = None then [] else [ApStop])
         @ (if connection_manager d = None then [] else [UpstreamDisconnect])
         @ (if interface_manager d = None then [] else [VifDelete]))"
    using B A U I by simp
  then have "new_calls w w' =
           (if bridge_service d = None then [] else [BridgeStop])
         @ (if ap_service d = None then [] else [ApStop])
         @ (if connection_manager d = None then [] else [UpstreamDisconnect])
         @ (if interface_manager d = None then [] else [VifDelete])"
    by (rule new_calls_append)
  moreover have "running d' = running d" using B A U I by simp
  ultimately show ?thesis by simp
qed

text \<open>The started daemon is stopped while no teardown command succeeds. Every layer
  reports failure (bridge and access point stay marked as running, the connection
  snapshot and the virtual interface stay), and every layer has been called.\<close>

theorem stop_services_order_witness:
  "can_run env_all_fail ''killall'' \<and> can_run env_all_fail ''dhclient''
   \<and> new_calls [] (snd (stop_services env_all_fail started_daemon [])) =
       [BridgeStop, ApStop, UpstreamDisconnect, VifDelete]
   \<and> running (fst (stop_services env_all_fail started_daemon []))
   \<and> map_option br_is_running (bridge_service (fst (stop_services env_all_fail started_daemon [])))
       = Some True
   \<and> map_option ap_is_running (ap_service (fst (stop_services env_all_fail started_daemon [])))
       = Some True
   \<and> map_option current_connection
         (connection_manager (fst (stop_services env_all_fail started_daemon [])))
       = Some (Some (with_link home_status None None))
   \<and> map_option virtual_interface
         (interface_manager (fst (stop_services env_all_fail started_daemon [])))
       = Some (Some ''wlan0_ap0'')"
proof -
  have h1: "can_run env_all_fail ''killall''" and h2: "can_run env_all_fail ''dhclient''"
    by (simp_all add: can_run_def scenario_defs)
  from stop_services_order [where e = env_all_fail and d = started_daemon and w = "[]",
                            OF h1 h2 prod.collapse [symmetric]]
  have "new_calls [] (snd (stop_services env_all_fail started_daemon [])) =
          [BridgeStop, ApStop, UpstreamDisconnect, VifDelete]
        \<and> running (fst (stop_services env_all_fail started_daemon []))"
    by (simp add: started_daemon_def ready_daemon_def)
  with h1 h2 all_fail_scenario show ?thesis
    by (simp split: prod.splits)
qed

text \<open>The daemon of \<open>run\<close>, stopped while \<open>iw dev wlan0_ap0 del\<close> fails: all four layers
  are called, and afterwards the virtual interface is still held and \<open>running\<close> is
  still set. The daemon has not reached a stopped state.\<close>

theorem stop_services_not_stopped:
  "(case stop_services env_del_fails ready_daemon [] of
      (d', w') \<Rightarrow> (running d', map_option virtual_interface (interface_manager d'), new_calls [] w')) =
   (True, Some (Some ''wlan0_ap0''), [BridgeStop, ApStop, UpstreamDisconnect, VifDelete])"
  using del_fails_scenario by (simp add: new_calls_def split: prod.splits)

text \<open>Where \<open>killall\<close> cannot be executed, the exception leaves \<open>disconnect\<close> and ends
  the single \<open>try\<close> block of \<open>stop_services\<close>: the virtual interface is not deleted.\<close>

lemma stop_services_skips_after_exception:
  "calls (snd (stop_services env_no_killall ready_daemon [])) =
     [BridgeStop, ApStop, UpstreamDisconnect]"
  by (simp add: os_defs collaborator_defs daemon_defs scenario_defs Let_def)

subsection \<open>Recovery in the service loop\<close>

lemma start_services_once:
  assumes "start_services e d w = (ok, d', w')"
  shows "\<exists>cs. calls w' = calls w @ StartServices # cs \<and> count_list cs StartServices = 0"
proof -
  from start_services_calls [OF assms] obtain us as bs where
    c: "calls w' = calls w @ StartServices # us @ as @ bs"
    and us: "set us \<subseteq> {UpstreamConnect}"
    and as: "set as \<subseteq> {ApConfigure, ApConfigureDhcp, ApStart}"
    and bs: "bs = [] \<and> \<not> ok \<or> ok \<and> bs = [BridgeStart] \<or> \<not> ok \<and> bs = [BridgeStart, ApStop]"
    by blast
  have "StartServices \<notin> set (us @ as @ bs)" using us as bs by auto
  then have "count_list (us @ as @ bs) StartServices = 0" by (simp add: count_list_0_iff)
  with c show ?thesis by blast
qed

lemma monitor_ap_frame: "monitor_ap e d w = (d', w') \<Longrightarrow> d' = d \<and> calls w' = calls w"
  by (auto simp: monitor_ap_def split: option.splits prod.splits dest!: calls_get_connected_clients)

lemma probe_down:
  assumes "upstream_down e"
  shows "\<exists>st. get_connection_status e cm w = (Inr st, w @ [Probe (cm_interface cm)])
              \<and> \<not> st_connected st"
proof -
  from assms obtain st where
    "detector e (length w) (cm_interface cm) = Status st" "\<not> st_connected st"
    by (auto simp: upstream_down_def)
  then show ?thesis by (simp add: get_connection_status_def with_link_def)
qed

text \<open>A tick that finds the upstream down calls \<open>start_services\<close> once; nothing in the
  daemon counts such calls.\<close>

lemma tick_recovers:
  assumes "upstream_down e" and "connection_manager d \<noteq> None" and "tick e d w = (d', w')"
  shows "(\<exists>cs. calls w' = calls w @ StartServices # cs \<and> count_list cs StartServices = 0)
         \<and> running d' = running d \<and> connection_manager d' \<noteq> None"
proof -
  from assms(2) obtain cm where cm: "connection_manager d = Some cm" by auto
  from probe_down [OF assms(1), of cm w] obtain st where
    st: "get_connection_status e cm w = (Inr st, w @ [Probe (cm_interface cm)])" "\<not> st_connected st"
    by blast
  obtain ok d2 w2 where s: "start_services e d (w @ [Probe (cm_interface cm)]) = (ok, d2, w2)"
    by (metis prod_cases3)
  with assms(3) cm st have m: "monitor_ap e d2 w2 = (d', w')"
    by (simp add: tick_def)
  from start_services_once [OF s] obtain cs where
    "calls w2 = calls w @ StartServices # cs" "count_list cs StartServices = 0" by auto
  moreover from monitor_ap_frame [OF m] have "d' = d2" "calls w' = calls w2" by simp_all
  moreover from start_services_frame [OF s] assms(2)
  have "running d2 = running d" "connection_manager d2 \<noteq> None" by simp_all
  ultimately show ?thesis by simp
qed

text \<open>
  C2 (as amended). While the daemon is running and no signal arrives, every tick of
  the service loop that finds the upstream disconnected calls \<open>start_services\<close> again,
  whether or not the earlier attempts failed: after \<open>n\<close> such ticks there have been
  exactly \<open>n\<close> recovery calls, for every \<open>n\<close>, the loop has not been left and
  \<open>running\<close> is still set. There is no bound on the attempts and no failed state.
\<close>

theorem recovery_is_unbounded:
  assumes "upstream_down e" and "no_signal e" and "running d" and "connection_manager d \<noteq> None"
  shows "case service_loop e n d w of
           (exited, d', w') \<Rightarrow>
             \<not> exited \<and> running d' \<and> count_list (new_calls w w') StartServices = n"
proof -
  have "\<exists>d' w' cs. service_loop e n d w = (False, d', w') \<and> running d'
          \<and> calls w' = calls w @ cs \<and> count_list cs StartServices = n"
    using assms(3,4)
  proof (induction n arbitrary: d w)
    case 0
    then show ?case by simp
  next
    case (Suc n)
    obtain d1 w1 where t: "tick e d w = (d1, w1)" by (metis surj_pair)
    from tick_recovers [OF assms(1) Suc.prems(2) t] Suc.prems(1) obtain cs where
      cs: "calls w1 = calls w @ StartServices # cs" "count_list cs StartServices = 0"
      and d1: "running d1" "connection_manager d1 \<noteq> None"
      by auto
    from Suc.IH [OF d1, of w1] obtain d' w' cs' where
      l: "service_loop e n d1 w1 = (False, d', w')" "running d'"
         "calls w' = calls w1 @ cs'" "count_list cs' StartServices = n"
      by blast
    from assms(2) have "\<not> signalled e (length w)" by (simp add: no_signal_def)
    with Suc.prems(1) t l(1) have "service_loop e (Suc n) d w = (False, d', w')"
      by simp
    moreover from cs l(3) have "calls w' = calls w @ (StartServices # cs @ cs')" by simp
    moreover from cs(2) l(4) have "count_list (StartServices # cs @ cs') StartServices = Suc n"
      by simp
    ultimately show ?case using l(2) by blast
  qed
  then show ?thesis by auto
qed

theorem recovery_is_unbounded_witness:
  "upstream_down env_down \<and> no_signal env_down \<and> running ready_daemon
   \<and> connection_manager ready_daemon \<noteq> None
   \<and> (case service_loop env_down 3 ready_daemon [] of
         (exited, d', w') \<Rightarrow>
           \<not> exited \<and> running d' \<and> count_list (new_calls [] w') StartServices = 3)"
proof -
  have h1: "upstream_down env_down"
    by (simp add: upstream_down_def scenario_defs)
  have h2: "no_signal env_down"
    by (simp add: no_signal_def scenario_defs)
  have h3: "running ready_daemon" and h4: "connection_manager ready_daemon \<noteq> None"
    by (simp_all add: ready_daemon_def)
  from recovery_is_unbounded [where n = 3 and w = "[]", OF h1 h2 h3 h4] h1 h2 h3 h4
  show ?thesis by simp
qed

text \<open>Five consecutive ticks with the upstream down, every command failing: every
  recovery attempt fails at the connection step, and the fifth tick still starts a
  recovery; the loop has not been left and \<open>running\<close> is set.\<close>

theorem recovery_never_gives_up:
  "(case service_loop env_down (Suc (Suc (Suc (Suc (Suc 0))))) ready_daemon [] of
      (exited, d', w') \<Rightarrow> (exited, running d', new_calls [] w')) =
   (False, True,
    [StartServices, UpstreamConnect, StartServices, UpstreamConnect, StartServices,
     UpstreamConnect, StartServices, UpstreamConnect, StartServices, UpstreamConnect])"
  by (simp add: os_defs collaborator_defs daemon_defs scenario_defs Let_def new_calls_def)


subsection \<open>Teardown of an absent virtual interface\<close>

text \<open>
  C3 (as amended). For every InterfaceManager that holds no virtual interface (the
  field is \<open>None\<close> or empty), \<open>delete_virtual_interface\<close> runs no command and leaves
  the manager unchanged, and it returns the failure
  \<open>(False, "No virtual interface exists")\<close>, not success.
\<close>

theorem delete_absent_virtual_interface:
  "\<not> truthy (virtual_interface im) \<Longrightarrow>
     delete_virtual_interface e im w = (Inr (False, [Lit ''No virtual interface exists'']), im, w)"
  by (simp add: delete_virtual_interface_def)

theorem delete_absent_virtual_interface_witness:
  "\<not> truthy (virtual_interface (new_interface_manager ''wlan0'')) \<and>
   delete_virtual_interface env_ok (new_interface_manager ''wlan0'') [] =
     (Inr (False, [Lit ''No virtual interface exists'']), new_interface_manager ''wlan0'', [])"
  using delete_absent_virtual_interface [of "new_interface_manager ''wlan0''" env_ok "[]"]
  by (simp add: new_interface_manager_def truthy_def)

text \<open>On a freshly constructed manager the call does not succeed.\<close>

theorem delete_absent_not_success:
  "\<not> succeeded (fst (delete_virtual_interface env_ok (new_interface_manager ''wlan0'') []))"
  by (simp add: delete_virtual_interface_def new_interface_manager_def truthy_def succeeded_def)

subsection \<open>Starting the access point\<close>

lemma run_all_ok: "always_exit0 e \<Longrightarrow> run_all e cs w = (None, w @ map Run cs)"
proof (induction cs arbitrary: w)
  case Nil
  then show ?case by simp
next
  case (Cons c cs)
  from Cons.prems obtain out where "proc e (length w) c = Exit 0 out"
    by (auto simp: always_exit0_def)
  then have "run_cmd e True c w = (Inr (0, out), w @ [Run c])"
    by (simp add: run_cmd_def)
  with Cons show ?case by simp
qed

text \<open>
  C4 (as amended). \<open>APService.start\<close> does not look at whether \<open>configure_ap\<close> was ever
  called: for every service object and every history, when its five commands (three
  \<open>ip\<close> commands, \<open>hostapd\<close>, \<open>dnsmasq\<close>) exit with 0 it returns success, sets
  \<open>is_running\<close> and has started both processes. There is no \<open>NotConfigured\<close> result.
\<close>

theorem ap_start_needs_no_configure:
  "always_exit0 e \<Longrightarrow>
     ap_start e aps w =
       (Inr (True, [Lit ''Access point started successfully'']),
        aps\<lparr>ap_is_running := True\<rparr>, w @ map Run (ap_start_commands aps))"
  by (simp add: ap_start_def run_all_ok)

theorem ap_start_needs_no_configure_witness:
  "always_exit0 env_ok \<and>
   ap_start env_ok (new_ap_service ''wlan0_ap0'') [] =
     (Inr (True, [Lit ''Access point started successfully'']),
      (new_ap_service ''wlan0_ap0'')\<lparr>ap_is_running := True\<rparr>,
      map Run (ap_start_commands (new_ap_service ''wlan0_ap0'')))"
proof -
  have h: "always_exit0 env_ok"
    by (simp add: always_exit0_def env_ok_def)
  from ap_start_needs_no_configure [OF h, of "new_ap_service ''wlan0_ap0''" "[]"] h
  show ?thesis by simp
qed

text \<open>A service object constructed and started at once, with an empty history: no
  configuration was written, the call succeeds and \<open>hostapd\<close> and \<open>dnsmasq\<close> have been
  started.\<close>

theorem ap_start_unconfigured_succeeds:
  "ap_start env_ok (new_ap_service ''wlan0_ap0'') [] =
     (Inr (True, [Lit ''Access point started successfully'']),
      \<lparr>ap_interface = ''wlan0_ap0'', hostapd_conf_path = ''/tmp/hostapd.conf'',
       dnsmasq_conf_path = ''/tmp/dnsmasq.conf'', ap_is_running = True\<rparr>,
      [Run [''ip'', ''addr'', ''flush'', ''dev'', ''wlan0_ap0''],
       Run [''ip'', ''addr'', ''add'', ''192.168.4.1/24'', ''dev'', ''wlan0_ap0''],
       Run [''ip'', ''link'', ''set'', ''wlan0_ap0'', ''up''],
       Run [''hostapd'', ''-B'', ''/tmp/hostapd.conf''],
       Run [''dnsmasq'', ''-C'', ''/tmp/dnsmasq.conf'']])"
  by (simp add: os_defs collaborator_defs scenario_defs)

subsection \<open>The client list\<close>














text \<open>A read error after the first lease line: the client of that line is returned and
  the station dump is not run.\<close>

lemma read_error_keeps_clients:
  "get_connected_clients env_lease_error (new_ap_service ''wlan0_ap0'') [] =
     ([\<lparr>mac_address = ''00:11:22:33:44:55'', ip_address = ''192.168.4.2'',
        hostname = ''android-phone'', signal_strength = None\<rparr>],
      [ExistsFile ''/var/lib/misc/dnsmasq.leases'', ReadFile ''/var/lib/misc/dnsmasq.leases''])"
  by (simp add: os_defs collaborator_defs scenario_defs lease_clients_def lease_client_def
      leases_path_def py_split_def py_strip_def py_isspace_def Let_def)

subsection \<open>Removing the firewall rules\<close>

text \<open>Without exceptions the loop of \<open>stop\<close> runs one command for every rule, in the
  order of the reversed list it is given; each command is the rule with position 3
  overwritten.\<close>

lemma remove_rules_order:
  "never_noexec e \<Longrightarrow> \<forall>r\<in>set rs. 3 < length r \<Longrightarrow>
     remove_rules e rs w = (None, w @ map (\<lambda>r. Run (r[3 := ''-D''])) rs)"
proof (induction rs arbitrary: w)
  case Nil
  then show ?case by simp
next
  case (Cons r rs)
  from Cons.prems(1) obtain rc out where "proc e (length w) (r[3 := ''-D'']) = Exit rc out"
    by (auto simp: never_noexec_def) (metis answer.exhaust)
  then have "run_cmd e False (r[3 := ''-D'']) w = (Inr (rc, out), w @ [Run (r[3 := ''-D''])])"
    by (simp add: run_cmd_def)
  with Cons show ?case by (simp add: delete_rule_def)
qed

text \<open>
  C6. \<open>BridgeService.stop\<close> is to attempt the removal of every installed rule, last
  installed first. Started and then stopped on \<open>wlan0\<close> and \<open>wlan0_ap0\<close> with every
  command succeeding, the three rules of \<open>setup_routing\<close> are on the stack, and
  \<open>stop\<close> runs three commands in reverse order and empties the stack; but only the
  command for the NAT rule is a removal (\<open>-t nat -D POSTROUTING\<close>). For the two
  \<open>FORWARD\<close> rules position 3 holds \<open>-i\<close>, not \<open>-A\<close>, so the commands run are
  \<open>iptables -A FORWARD -D ...\<close>, which remove nothing.
\<close>

theorem bridge_stop_removal_commands:
  "(case bridge_start env_ok (new_bridge_service ''wlan0'' ''wlan0_ap0'') [] of
      (r, br, w) \<Rightarrow>
        (case bridge_stop env_ok br w of
           (r', br', w') \<Rightarrow>
             (fst r, iptables_rules br = routing_rules br, fst r', iptables_rules br',
              drop (length w) w'))) =
   (True, True, True, [],
    [Run [''iptables'', ''-A'', ''FORWARD'', ''-D'', ''wlan0'', ''-o'', ''wlan0_ap0'',
          ''-m'', ''state'', ''--state'', ''RELATED,ESTABLISHED'', ''-j'', ''ACCEPT''],
     Run [''iptables'', ''-A'', ''FORWARD'', ''-D'', ''wlan0_ap0'', ''-o'', ''wlan0'',
          ''-j'', ''ACCEPT''],
     Run [''iptables'', ''-t'', ''nat'', ''-D'', ''POSTROUTING'', ''-o'', ''wlan0'',
          ''-j'', ''MASQUERADE''],
     WriteFile ''/proc/sys/net/ipv4/ip_forward'' ''0'',
     Run [''ip'', ''link'', ''set'', ''wlan0_ap0'', ''nomaster''],
     Run [''ip'', ''link'', ''delete'', ''br0'', ''type'', ''bridge'']])"
  by (simp add: os_defs collaborator_defs scenario_defs ip_forward_path_def Let_def)

subsection \<open>Connecting to the upstream network\<close>

text \<open>
  C7. \<open>connect_to_network\<close> returns success only if the connection request went
  through and the status probe taken after it reports the interface connected with
  the requested SSID. If that probe reports anything else, the call fails with the
  verification failure \<open>(False, "Failed to connect to <ssid>")\<close> (the result the
  code gives where the specification says \<open>ConnectVerifyFailed\<close>) and the connection
  manager is unchanged.
\<close>

theorem connect_success_is_verified:
  assumes "request_connection e cm ssid password w = (r, w4)"
    and "get_connection_status e cm w4 = (p, w5)"
  shows "(fst (fst (connect_to_network e cm ssid password w)) \<longrightarrow>
            r = None \<and> (\<exists>st. p = Inr st \<and> st_connected st \<and> st_ssid st = Some ssid))
       \<and> (r = None \<and> (\<exists>st. p = Inr st \<and> \<not> (st_connected st \<and> st_ssid st = Some ssid)) \<longrightarrow>
            connect_to_network e cm ssid password w =
              ((False, [Lit ''Failed to connect to '', Lit ssid]), cm, w5))"
  using assms
  by (auto simp: connect_to_network_def verified_def split: prod.splits option.splits sum.splits)

lemma other_ssid_scenario:
  "fst (request_connection env_ok (new_connection_manager ''wlan0'') ''Other'' None []) = None"
  "fst (get_connection_status env_ok (new_connection_manager ''wlan0'')
          (snd (request_connection env_ok (new_connection_manager ''wlan0'') ''Other'' None []))) =
     Inr (with_link home_status None None)"
  by (simp_all add: os_defs collaborator_defs scenario_defs)

lemma home_ssid_scenario:
  "fst (connect_to_network env_ok (new_connection_manager ''wlan0'') ''Home'' (Some ''secret123'') []) =
     (True, [Lit ''Successfully connected to '', Lit ''Home''])"
  by (simp add: os_defs collaborator_defs scenario_defs)

text \<open>The upstream is associated with \<open>Home\<close>: a request for \<open>Home\<close> succeeds, a
  request for \<open>Other\<close> goes through and fails the verification.\<close>

theorem connect_success_is_verified_witness:
  "fst (fst (connect_to_network env_ok (new_connection_manager ''wlan0'') ''Home''
               (Some ''secret123'') []))
   \<and> (\<exists>st. fst (get_connection_status env_ok (new_connection_manager ''wlan0'')
                 (snd (request_connection env_ok (new_connection_manager ''wlan0'') ''Home''
                         (Some ''secret123'') []))) = Inr st
           \<and> st_connected st \<and> st_ssid st = Some ''Home'')
   \<and> fst (request_connection env_ok (new_connection_manager ''wlan0'') ''Other'' None []) = None
   \<and> fst (connect_to_network env_ok (new_connection_manager ''wlan0'') ''Other'' None []) =
       (False, [Lit ''Failed to connect to '', Lit ''Other''])"
  using connect_success_is_verified [where e = env_ok and cm = "new_connection_manager ''wlan0''"
          and ssid = "''Home''" and password = "Some ''secret123''" and w = "[]",
          OF prod.collapse [symmetric] prod.collapse [symmetric]]
    connect_success_is_verified [where e = env_ok and cm = "new_connection_manager ''wlan0''"
          and ssid = "''Other''" and password = None and w = "[]",
          OF prod.collapse [symmetric] prod.collapse [symmetric]]
    other_ssid_scenario home_ssid_scenario
  by (simp add: with_link_def home_status_def)

text \<open>
  C9. \<open>connect_to_network\<close> writes \<open>current_connection\<close> only when the verification
  succeeds, and then with the verified status; on every failing call the connection
  manager, and with it the snapshot of an earlier association, is as before the
  call.
\<close>

theorem connect_failure_keeps_current_connection:
  "connect_to_network e cm ssid password w = ((ok, m), cm', w') \<Longrightarrow>
     (\<not> ok \<longrightarrow> cm' = cm)
     \<and> (ok \<longrightarrow> (\<exists>st. verified st ssid \<and> cm' = cm\<lparr>current_connection := Some st\<rparr>))"
  by (auto simp: connect_to_network_def split: prod.splits option.splits sum.splits if_splits)

lemma stale_scenario:
  "fst (connect_to_network env_ok
          \<lparr>cm_interface = ''wlan0'', current_connection = Some (with_link home_status None None)\<rparr>
          ''Other'' None []) =
     (False, [Lit ''Failed to connect to '', Lit ''Other''])"
  by (simp add: os_defs collaborator_defs scenario_defs)

text \<open>A manager that holds the snapshot of its association with \<open>Home\<close> fails to
  connect to \<open>Other\<close>: the snapshot of \<open>Home\<close> is still there.\<close>

theorem connect_failure_keeps_current_connection_witness:
  "\<not> fst (fst (connect_to_network env_ok
             \<lparr>cm_interface = ''wlan0'', current_connection = Some (with_link home_status None None)\<rparr>
             ''Other'' None []))
   \<and> current_connection (fst (snd (connect_to_network env_ok
             \<lparr>cm_interface = ''wlan0'', current_connection = Some (with_link home_status None None)\<rparr>
             ''Other'' None []))) = Some (with_link home_status None None)"
  using connect_failure_keeps_current_connection
          [where e = env_ok and ssid = "''Other''" and password = None and w = "[]"
             and cm = "\<lparr>cm_interface = ''wlan0'',
                         current_connection = Some (with_link home_status None None)\<rparr>"
             and ok = False and m = "[Lit ''Failed to connect to '', Lit ''Other'']"
             and cm' = "fst (snd (connect_to_network env_ok
                         \<lparr>cm_interface = ''wlan0'',
                           current_connection = Some (with_link home_status None None)\<rparr>
                         ''Other'' None []))"
             and w' = "snd (snd (connect_to_network env_ok
                         \<lparr>cm_interface = ''wlan0'',
                           current_connection = Some (with_link home_status None None)\<rparr>
                         ''Other'' None []))"]
    stale_scenario
  by (simp add: prod_eq_iff)

subsection \<open>The empty credential\<close>

lemma join_nl_append:
  "xs \<noteq> [] \<Longrightarrow> ys \<noteq> [] \<Longrightarrow> join_nl (xs @ ys) = join_nl xs @ CHR 0x0A # join_nl ys"
proof (induction xs rule: join_nl.induct)
  case 1
  then show ?case by simp
next
  case (2 x)
  then show ?case by (cases ys) simp_all
next
  case (3 x y zs)
  then show ?case by simp
qed

lemma run_cmd_extends: "run_cmd e chk c w = (r, w') \<Longrightarrow> w' = w @ [Run c]"
  by (auto simp: run_cmd_def split: answer.splits if_splits)

lemma get_connection_status_extends:
  "get_connection_status e cm w = (r, w') \<Longrightarrow> \<exists>ext. w' = w @ ext"
  by (auto simp: get_connection_status_def Let_def
      split: detected.splits prod.splits sum.splits if_splits dest!: run_cmd_extends)

lemma request_connection_extends:
  "request_connection e cm ssid password w = (r, w') \<Longrightarrow>
     \<exists>rest. w' = w @ WriteFile wpa_conf_path (join_nl (wpa_config_lines ssid password)) # rest"
  by (auto simp: request_connection_def write_file_def sleep_def
      split: prod.splits sum.splits bool.splits dest!: run_cmd_extends)

lemma connect_to_network_extends:
  "\<exists>rest. snd (snd (connect_to_network e cm ssid password w)) =
     w @ WriteFile wpa_conf_path (join_nl (wpa_config_lines ssid password)) # rest"
proof -
  obtain r w4 where rq: "request_connection e cm ssid password w = (r, w4)" by (metis surj_pair)
  from request_connection_extends [OF rq] obtain rest where
    w4: "w4 = w @ WriteFile wpa_conf_path (join_nl (wpa_config_lines ssid password)) # rest"
    by blast
  show ?thesis
  proof (cases r)
    case (Some x)
    with rq w4 show ?thesis by (simp add: connect_to_network_def)
  next
    case None
    obtain p w5 where gs: "get_connection_status e cm w4 = (p, w5)" by (metis surj_pair)
    from get_connection_status_extends [OF gs] obtain ext where "w5 = w4 @ ext" by blast
    with w4 have "w5 = w @ WriteFile wpa_conf_path (join_nl (wpa_config_lines ssid password))
                          # (rest @ ext)"
      by simp
    moreover from rq None gs have "snd (snd (connect_to_network e cm ssid password w)) = w5"
      by (simp add: connect_to_network_def split: sum.splits)
    ultimately show ?thesis by blast
  qed
qed

lemma configure_ap_world:
  "snd (configure_ap e aps ssid password channel hw_mode w) =
     w @ [WriteFile (hostapd_conf_path aps)
            (join_nl (hostapd_config_lines (ap_interface aps) ssid password channel hw_mode))]"
  by (simp add: configure_ap_def write_file_def split: bool.splits)

lemma hostapd_lines_explicit:
  "hostapd_config_lines iface ssid password channel hw_mode =
     [''interface='' @ iface, ''driver=nl80211'', ''ssid='' @ ssid,
      ''hw_mode='' @ hw_mode, ''channel='' @ str_int channel,
      ''ctrl_interface=/var/run/hostapd'', ''ctrl_interface_group=0'',
      ''ignore_broadcast_ssid=0'']
     @ (if password = None \<or> password = Some [] then []
        else [''wpa=2'', ''wpa_key_mgmt=WPA-PSK'', ''rsn_pairwise=CCMP'',
              ''wpa_passphrase='' @ the password])"
  by (auto simp: hostapd_config_lines_def wpa2_stanza_def truthy_def split: option.splits)

lemma wpa_lines_explicit:
  "wpa_config_lines ssid password =
     [''ctrl_interface=/run/wpa_supplicant'', ''update_config=1'', ''network={'',
      ''    ssid='' @ [CHR 0x22] @ ssid @ [CHR 0x22]]
     @ (if password = None \<or> password = Some [] then [''    key_mgmt=NONE'']
        else [''    key_mgmt=WPA-PSK'', ''    psk='' @ [CHR 0x22] @ the password @ [CHR 0x22]])
     @ [''}'']"
  by (auto simp: wpa_config_lines_def dquote_def truthy_def split: option.splits)

lemma stanza_changes_text:
  "truthy password \<Longrightarrow>
     join_nl (hostapd_config_lines iface ssid password channel hw_mode)
     \<noteq> join_nl (hostapd_config_lines iface ssid None channel hw_mode)"
proof -
  assume "truthy password"
  then have "hostapd_config_lines iface ssid password channel hw_mode =
               hostapd_config_lines iface ssid None channel hw_mode @ wpa2_stanza (the password)"
    by (simp add: hostapd_config_lines_def truthy_def)
  moreover have "hostapd_config_lines iface ssid None channel hw_mode \<noteq> []"
    "wpa2_stanza (the password) \<noteq> []"
    by (simp_all add: hostapd_config_lines_def wpa2_stanza_def)
  ultimately show ?thesis
    by (simp add: join_nl_append del: join_nl.simps)
qed

text \<open>
  C10. An empty password is treated as no password by both public methods:
  \<open>configure_ap\<close> and \<open>connect_to_network\<close> do exactly the same for \<open>""\<close> as for
  \<open>None\<close>. The text that \<open>configure_ap\<close> writes to the hostapd configuration file is
  that of the open network, followed by the WPA2 stanza if and only if the password
  is a non-empty string. The first thing \<open>connect_to_network\<close> does is to write the
  wpa_supplicant configuration, whose network block says \<open>key_mgmt=NONE\<close> for an
  absent or empty password and \<open>key_mgmt=WPA-PSK\<close> with the password otherwise.
\<close>

theorem empty_credential_is_absent:
  "configure_ap e aps ssid (Some []) channel hw_mode w = configure_ap e aps ssid None channel hw_mode w
   \<and> connect_to_network e cm ssid' (Some []) w = connect_to_network e cm ssid' None w
   \<and> snd (configure_ap e aps ssid password channel hw_mode w) =
       w @ [WriteFile (hostapd_conf_path aps)
              (join_nl
                 ([''interface='' @ ap_interface aps, ''driver=nl80211'', ''ssid='' @ ssid,
                   ''hw_mode='' @ hw_mode, ''channel='' @ str_int channel,
                   ''ctrl_interface=/var/run/hostapd'', ''ctrl_interface_group=0'',
                   ''ignore_broadcast_ssid=0'']
                  @ (if password = None \<or> password = Some [] then []
                     else [''wpa=2'', ''wpa_key_mgmt=WPA-PSK'', ''rsn_pairwise=CCMP'',
                           ''wpa_passphrase='' @ the password])))]
   \<and> (snd (configure_ap e aps ssid password channel hw_mode w) =
        snd (configure_ap e aps ssid None channel hw_mode w)
        \<longleftrightarrow> password = None \<or> password = Some [])
   \<and> (\<exists>rest. snd (snd (connect_to_network e cm ssid' password w)) =
         w @ WriteFile ''/tmp/wpa_supplicant.conf''
               (join_nl
                  ([''ctrl_interface=/run/wpa_supplicant'', ''update_config=1'', ''network={'',
                    ''    ssid='' @ [CHR 0x22] @ ssid' @ [CHR 0x22]]
                   @ (if password = None \<or> password = Some [] then [''    key_mgmt=NONE'']
                      else [''    key_mgmt=WPA-PSK'',
                            ''    psk='' @ [CHR 0x22] @ the password @ [CHR 0x22]])
                   @ [''}''])) # rest)"
proof (intro conjI)
  show "configure_ap e aps ssid (Some []) channel hw_mode w =
          configure_ap e aps ssid None channel hw_mode w"
    by (simp add: configure_ap_def hostapd_config_lines_def truthy_def)
  show "connect_to_network e cm ssid' (Some []) w = connect_to_network e cm ssid' None w"
    by (simp add: connect_to_network_def request_connection_def wpa_config_lines_def truthy_def)
  show "snd (configure_ap e aps ssid password channel hw_mode w) =
       w @ [WriteFile (hostapd_conf_path aps)
              (join_nl
                 ([''interface='' @ ap_interface aps, ''driver=nl80211'', ''ssid='' @ ssid,
                   ''hw_mode='' @ hw_mode, ''channel='' @ str_int channel,
                   ''ctrl_interface=/var/run/hostapd'', ''ctrl_interface_group=0'',
                   ''ignore_broadcast_ssid=0'']
                  @ (if password = None \<or> password = Some [] then []
                     else [''wpa=2'', ''wpa_key_mgmt=WPA-PSK'', ''rsn_pairwise=CCMP'',
                           ''wpa_passphrase='' @ the password])))]"
    by (simp only: configure_ap_world hostapd_lines_explicit)
  show "snd (configure_ap e aps ssid password channel hw_mode w) =
        snd (configure_ap e aps ssid None channel hw_mode w)
        \<longleftrightarrow> password = None \<or> password = Some []"
  proof (cases "truthy password")
    case True
    from stanza_changes_text [OF True] True show ?thesis
      by (auto simp: configure_ap_world truthy_def simp del: join_nl.simps split: option.splits)
  next
    case False
    then have "hostapd_config_lines (ap_interface aps) ssid password channel hw_mode =
                 hostapd_config_lines (ap_interface aps) ssid None channel hw_mode"
      by (simp add: hostapd_config_lines_def truthy_def)
    with False show ?thesis
      by (auto simp: configure_ap_world truthy_def simp del: join_nl.simps split: option.splits)
  qed
  from connect_to_network_extends [of e cm ssid' password w]
  show "\<exists>rest. snd (snd (connect_to_network e cm ssid' password w)) =
         w @ WriteFile ''/tmp/wpa_supplicant.conf''
               (join_nl
                  ([''ctrl_interface=/run/wpa_supplicant'', ''update_config=1'', ''network={'',
                    ''    ssid='' @ [CHR 0x22] @ ssid' @ [CHR 0x22]]
                   @ (if password = None \<or> password = Some [] then [''    key_mgmt=NONE'']
                      else [''    key_mgmt=WPA-PSK'',
                            ''    psk='' @ [CHR 0x22] @ the password @ [CHR 0x22]])
                   @ [''}''])) # rest"
    by (simp only: wpa_conf_path_def wpa_lines_explicit)
qed

text \<open>The hotspot \<open>Extend\<close> configured with an empty password and with \<open>secret123\<close>,
  and a connection to \<open>Home\<close> requested with an empty password.\<close>

theorem empty_credential_is_absent_witness:
  "snd (configure_ap env_ok (new_ap_service ''wlan0_ap0'') ''Extend'' (Some []) 6 ''g'' []) =
     [WriteFile ''/tmp/hostapd.conf''
        (join_nl [''interface=wlan0_ap0'', ''driver=nl80211'', ''ssid=Extend'', ''hw_mode=g'',
                  ''channel='' @ str_int 6, ''ctrl_interface=/var/run/hostapd'',
                  ''ctrl_interface_group=0'', ''ignore_broadcast_ssid=0''])]
   \<and> snd (configure_ap env_ok (new_ap_service ''wlan0_ap0'') ''Extend'' (Some ''secret123'') 6 ''g'' []) =
     [WriteFile ''/tmp/hostapd.conf''
        (join_nl [''interface=wlan0_ap0'', ''driver=nl80211'', ''ssid=Extend'', ''hw_mode=g'',
                  ''channel='' @ str_int 6, ''ctrl_interface=/var/run/hostapd'',
                  ''ctrl_interface_group=0'', ''ignore_broadcast_ssid=0'',
                  ''wpa=2'', ''wpa_key_mgmt=WPA-PSK'', ''rsn_pairwise=CCMP'',
                  ''wpa_passphrase=secret123''])]
   \<and> (\<exists>rest. snd (snd (connect_to_network env_ok (new_connection_manager ''wlan0'') ''Home''
                          (Some []) [])) =
         WriteFile ''/tmp/wpa_supplicant.conf''
           (join_nl [''ctrl_interface=/run/wpa_supplicant'', ''update_config=1'', ''network={'',
                     ''    ssid='' @ [CHR 0x22] @ ''Home'' @ [CHR 0x22], ''    key_mgmt=NONE'',
                     ''}'']) # rest)
   \<and> configure_ap env_ok (new_ap_service ''wlan0_ap0'') ''Extend'' (Some []) 6 ''g'' [] =
       configure_ap env_ok (new_ap_service ''wlan0_ap0'') ''Extend'' None 6 ''g'' []
   \<and> connect_to_network env_ok (new_connection_manager ''wlan0'') ''Home'' (Some []) [] =
       connect_to_network env_ok (new_connection_manager ''wlan0'') ''Home'' None []"
proof -
  note empty = empty_credential_is_absent [where e = env_ok and aps = "new_ap_service ''wlan0_ap0''"
          and ssid = "''Extend''" and channel = 6 and hw_mode = "''g''" and w = "[]"
          and cm = "new_connection_manager ''wlan0''" and ssid' = "''Home''"
          and password = "Some []"]
  note secret = empty_credential_is_absent [where e = env_ok and aps = "new_ap_service ''wlan0_ap0''"
          and ssid = "''Extend''" and channel = 6 and hw_mode = "''g''" and w = "[]"
          and cm = "new_connection_manager ''wlan0''" and ssid' = "''Home''"
          and password = "Some ''secret123''"]
  show ?thesis
  proof (intro conjI)
    from empty [THEN conjunct2, THEN conjunct2, THEN conjunct1]
    show "snd (configure_ap env_ok (new_ap_service ''wlan0_ap0'') ''Extend'' (Some []) 6 ''g'' []) =
       [WriteFile ''/tmp/hostapd.conf''
          (join_nl [''interface=wlan0_ap0'', ''driver=nl80211'', ''ssid=Extend'', ''hw_mode=g'',
                    ''channel='' @ str_int 6, ''ctrl_interface=/var/run/hostapd'',
                    ''ctrl_interface_group=0'', ''ignore_broadcast_ssid=0''])]"
      by (simp add: new_ap_service_def del: join_nl.simps)
    from secret [THEN conjunct2, THEN conjunct2, THEN conjunct1]
    show "snd (configure_ap env_ok (new_ap_service ''wlan0_ap0'') ''Extend'' (Some ''secret123'') 6 ''g'' []) =
       [WriteFile ''/tmp/hostapd.conf''
          (join_nl [''interface=wlan0_ap0'', ''driver=nl80211'', ''ssid=Extend'', ''hw_mode=g'',
                    ''channel='' @ str_int 6, ''ctrl_interface=/var/run/hostapd'',
                    ''ctrl_interface_group=0'', ''ignore_broadcast_ssid=0'',
                    ''wpa=2'', ''wpa_key_mgmt=WPA-PSK'', ''rsn_pairwise=CCMP'',
                    ''wpa_passphrase=secret123''])]"
      by (simp add: new_ap_service_def del: join_nl.simps)
    from empty [THEN conjunct2, THEN conjunct2, THEN conjunct2, THEN conjunct2]
    show "\<exists>rest. snd (snd (connect_to_network env_ok (new_connection_manager ''wlan0'') ''Home''
                          (Some []) [])) =
         WriteFile ''/tmp/wpa_supplicant.conf''
           (join_nl [''ctrl_interface=/run/wpa_supplicant'', ''update_config=1'', ''network={'',
                     ''    ssid='' @ [CHR 0x22] @ ''Home'' @ [CHR 0x22], ''    key_mgmt=NONE'',
                     ''}'']) # rest"
      by (simp del: join_nl.simps)
    from empty [THEN conjunct1]
    show "configure_ap env_ok (new_ap_service ''wlan0_ap0'') ''Extend'' (Some []) 6 ''g'' [] =
       configure_ap env_ok (new_ap_service ''wlan0_ap0'') ''Extend'' None 6 ''g'' []" .
    from empty [THEN conjunct2, THEN conjunct1]
    show "connect_to_network env_ok (new_connection_manager ''wlan0'') ''Home'' (Some []) [] =
       connect_to_network env_ok (new_connection_manager ''wlan0'') ''Home'' None []" .
  qed
qed

end
